theory Spec2Isabelle
  imports Main
begin

section \<open>The StackedPhones component: data model\<close>

text \<open>
  The component of the repository is the class \<open>StackedPhones\<close> (the later, unified
  click/touch/keyboard version). Its fields, the part of the document it touches (the
  container element, the overlay elements it creates, the listeners of the document),
  the console and the custom events dispatched on the container are one state record,
  passed through every method. References to overlay elements are indices into the
  store \<open>elements\<close>: the array \<open>this.overlays\<close> holds references, and an element
  lives on in the store after \<open>destroy\<close> has emptied that array.
\<close>

datatype error = TypeError

text \<open>JavaScript values a caller can pass to the public methods.\<close>

datatype js_value = JStr string | JNum int | JBool bool | JNull | JUndefined

text \<open>
  Function objects. \<open>Method h\<close> is the method found on the prototype
  (\<open>this.handleInteraction\<close>); \<open>BoundFn h k\<close> is the k-th function object made by
  \<open>.bind(this)\<close>, a new object at every call of \<open>bind\<close>.
\<close>

datatype handler = HandleInteraction | HandleTouchInteraction | HandleKeyboard | HandleClickOutside

datatype fn = Method handler | BoundFn handler nat

type_synonym listener = "string \<times> fn"

record config =
  debugMode :: bool
  enableClickOutside :: bool
  overlayVisibleWidths :: "int list"
  overlayLeftPositions :: "int list"
  enableHoverFeedback :: bool

text \<open>An overlay element: the attributes and style properties the component sets.\<close>

record overlay =
  className :: string
  data_phone :: "string option"
  aria_label :: "string option"
  role :: "string option"
  tabindex :: "string option"
  aria_pressed :: "string option"
  aria_expanded :: "string option"
  style_background :: string
  style_border :: string
  style_opacity :: string
  listeners :: "listener list"

text \<open>
  The container element: its class list, the number of descendants matching
  \<open>.phone-card\<close>, and the overlay elements appended to it.
\<close>

record element =
  classList :: "string list"
  cards :: nat
  children :: "nat list"

text \<open>A custom event: its name and its detail without the back-reference \<open>instance\<close>.\<close>

datatype custom_event = CustomEvent string "(string \<times> string option) list"

record component =
  container :: element
  phoneCards :: nat
  activeCard :: "string option"
  overlays :: "nat list"
  config :: config
  elements :: "overlay list"
  documentListeners :: "listener list"
  console :: "(string \<times> string) list"
  dispatched :: "custom_event list"
  fnCount :: nat

text \<open>
  An input event: its type, its key (for keyboard events), its target, and two facts
  about the target that the handlers or the claims read: whether it lies inside the
  component's root, and whether \<open>e.target.closest('.phone-stack-container')\<close> finds
  an element.
\<close>

datatype node = OverlayNode nat | OtherNode

record dom_event =
  ev_type :: string
  ev_key :: string
  ev_target :: node
  target_in_root :: bool
  target_closest :: bool

section \<open>Strings and the DOM primitives\<close>

definition digit_char :: "nat \<Rightarrow> char" where
  "digit_char d = ''0123456789'' ! d"

fun decimal :: "nat \<Rightarrow> string" where
  "decimal n = (if n < 10 then [digit_char n] else decimal (n div 10) @ [digit_char (n mod 10)])"

declare decimal.simps [simp del]

text \<open>
  \<open>Number.prototype.toString\<close> on an integer (exact below \<open>10^21\<close> in absolute
  value, where JavaScript switches to exponent notation).
\<close>

definition number_toString :: "int \<Rightarrow> string" where
  "number_toString n = (if n < 0 then ''-'' @ decimal (nat (- n)) else decimal (nat n))"

text \<open>\<open>x.toString()\<close>: a TypeError on \<open>null\<close> and \<open>undefined\<close>.\<close>

fun toString :: "js_value \<Rightarrow> error + string" where
  "toString (JStr s) = Inr s"
| "toString (JNum n) = Inr (number_toString n)"
| "toString (JBool b) = Inr (if b then ''true'' else ''false'')"
| "toString JNull = Inl TypeError"
| "toString JUndefined = Inl TypeError"

text \<open>A string or \<open>null\<close> inside a template literal.\<close>

fun template :: "string option \<Rightarrow> string" where
  "template None = ''null''"
| "template (Some s) = s"

text \<open>The truth value of a string or \<open>null\<close>.\<close>

fun truthy :: "string option \<Rightarrow> bool" where
  "truthy None = False"
| "truthy (Some s) = (s \<noteq> [])"

definition bool_toString :: "bool \<Rightarrow> string" where
  "bool_toString b = (if b then ''true'' else ''false'')"

text \<open>
  \<open>DOMTokenList\<close>: \<open>contains\<close>, \<open>add\<close>, \<open>remove\<close> with several tokens. In the DOM,
  \<open>add\<close> throws on the empty token and on a token containing ASCII whitespace;
  \<open>classList_add\<close> is what it does with every other token (\<open>token_ok\<close>). The only
  tokens the class adds are the classes \<open>phone-X-active\<close>, and every statement below
  that adds one takes \<open>X\<close> from the item identifiers, whose classes are such tokens
  (lemma \<open>cardClass_token_ok\<close>).
\<close>

definition token_ok :: "string \<Rightarrow> bool" where
  "token_ok t \<longleftrightarrow>
     t \<noteq> [] \<and> list_all (\<lambda>c. c \<notin> set [CHR '' '', CHR 0x09, CHR 0x0A, CHR 0x0C, CHR 0x0D]) t"

definition classList_contains :: "string list \<Rightarrow> string \<Rightarrow> bool" where
  "classList_contains cl t = (t \<in> set cl)"

definition classList_add :: "string list \<Rightarrow> string \<Rightarrow> string list" where
  "classList_add cl t = (if t \<in> set cl then cl else cl @ [t])"

definition classList_remove :: "string list \<Rightarrow> string list \<Rightarrow> string list" where
  "classList_remove cl ts = filter (\<lambda>t. t \<notin> set ts) cl"

text \<open>
  \<open>addEventListener\<close> ignores a listener already registered with the same type and
  the same function object; \<open>removeEventListener\<close> removes the listener with that type
  and that function object, if there is one.
\<close>

definition addEventListener :: "listener list \<Rightarrow> string \<Rightarrow> fn \<Rightarrow> listener list" where
  "addEventListener ls t f = (if (t, f) \<in> set ls then ls else ls @ [(t, f)])"

definition removeEventListener :: "listener list \<Rightarrow> string \<Rightarrow> fn \<Rightarrow> listener list" where
  "removeEventListener ls t f = filter (\<lambda>l. l \<noteq> (t, f)) ls"

definition update_element :: "nat \<Rightarrow> (overlay \<Rightarrow> overlay) \<Rightarrow> component \<Rightarrow> component" where
  "update_element r f s = s\<lparr>elements := (elements s)[r := f (elements s ! r)]\<rparr>"

text \<open>\<open>Array.prototype.indexOf\<close> on an array of strings, for a string or \<open>null\<close>.\<close>

fun indexOf_from :: "int \<Rightarrow> string list \<Rightarrow> string option \<Rightarrow> int" where
  "indexOf_from i [] v = -1"
| "indexOf_from i (x # xs) v = (if v = Some x then i else indexOf_from (i + 1) xs v)"

definition indexOf :: "string list \<Rightarrow> string option \<Rightarrow> int" where
  "indexOf xs v = indexOf_from 0 xs v"

text \<open>The remainder operator \<open>%\<close> of JavaScript on integers: it truncates towards zero.\<close>

definition js_rem :: "int \<Rightarrow> int \<Rightarrow> int" where
  "js_rem a b = sgn a * (\<bar>a\<bar> mod \<bar>b\<bar>)"

text \<open>Reading an array of strings at an index: \<open>undefined\<close> out of range.\<close>

definition array_get :: "string list \<Rightarrow> int \<Rightarrow> js_value" where
  "array_get xs i = (if 0 \<le> i \<and> i < int (length xs) then JStr (xs ! nat i) else JUndefined)"

section \<open>The methods of the class\<close>

definition dispatchEvent :: "string \<Rightarrow> (string \<times> string option) list \<Rightarrow> component \<Rightarrow> component" where
  "dispatchEvent eventName detail s = s\<lparr>dispatched := dispatched s @ [CustomEvent eventName detail]\<rparr>"

text \<open>
  \<open>updateAriaStates\<close>: the loop over \<open>this.overlays\<close> with its index; the phone number
  of an overlay is computed from the index, not read from the element.
\<close>

fun updateAriaStates_from :: "nat \<Rightarrow> nat list \<Rightarrow> string option \<Rightarrow> component \<Rightarrow> component" where
  "updateAriaStates_from index [] activePhoneNumber s = s"
| "updateAriaStates_from index (r # rs) activePhoneNumber s =
     (let phoneNumber = decimal (index + 1);
          isActive = (Some phoneNumber = activePhoneNumber);
          s1 = update_element r (\<lambda>e. e\<lparr>aria_pressed := Some (bool_toString isActive)\<rparr>) s;
          s2 = update_element r (\<lambda>e. e\<lparr>aria_expanded := Some (bool_toString isActive)\<rparr>) s1
      in updateAriaStates_from (index + 1) rs activePhoneNumber s2)"

definition updateAriaStates :: "string option \<Rightarrow> component \<Rightarrow> component" where
  "updateAriaStates activePhoneNumber s = updateAriaStates_from 0 (overlays s) activePhoneNumber s"

definition deactivateAll :: "component \<Rightarrow> component" where
  "deactivateAll s =
     (let s1 = s\<lparr>container := (container s)\<lparr>classList :=
                   classList_remove (classList (container s))
                     [''phone-1-active'', ''phone-2-active'', ''phone-3-active'']\<rparr>\<rparr>;
          s2 = s1\<lparr>activeCard := None\<rparr>;
          s3 = updateAriaStates None s2
      in dispatchEvent ''phoneDeactivated'' [] s3)"

text \<open>The local constant \<open>cardClass\<close> of \<open>togglePhone\<close>.\<close>

definition cardClass :: "string option \<Rightarrow> string" where
  "cardClass phoneNumber = ''phone-'' @ template phoneNumber @ ''-active''"

definition togglePhone :: "string option \<Rightarrow> component \<Rightarrow> component" where
  "togglePhone phoneNumber s =
     (if classList_contains (classList (container s)) (cardClass phoneNumber) then deactivateAll s
      else
        let s1 = deactivateAll s;
            s2 = s1\<lparr>container := (container s1)\<lparr>classList :=
                      classList_add (classList (container s1)) (cardClass phoneNumber)\<rparr>\<rparr>;
            s3 = s2\<lparr>activeCard := phoneNumber\<rparr>;
            s4 = updateAriaStates phoneNumber s3
        in dispatchEvent ''phoneActivated'' [(''phoneNumber'', phoneNumber)] s4)"

text \<open>
  \<open>createClickOverlays\<close>: one new element per entry of \<open>overlayConfigs\<close>, appended to
  the container and pushed on \<open>this.overlays\<close>.
\<close>

definition overlayConfigs :: "(string \<times> string \<times> bool) list" where
  "overlayConfigs =
     [(''click-overlay click-overlay-1'', ''1'', True),
      (''click-overlay click-overlay-2'', ''2'', False),
      (''click-overlay click-overlay-3'', ''3'', False)]"

definition createElement :: "overlay" where
  "createElement = \<lparr>className = [], data_phone = None, aria_label = None, role = None,
     tabindex = None, aria_pressed = None, aria_expanded = None, style_background = [],
     style_border = [], style_opacity = [], listeners = []\<rparr>"

definition createOverlay :: "string \<times> string \<times> bool \<Rightarrow> component \<Rightarrow> component" where
  "createOverlay cfg s =
     (case cfg of (cls, phoneNumber, fullWidth) \<Rightarrow>
        let r = length (elements s);
            el = createElement\<lparr>className := cls, data_phone := Some phoneNumber,
                   aria_label := Some (''Toggle phone '' @ phoneNumber),
                   role := Some ''button'', tabindex := Some ''0''\<rparr>;
            s1 = s\<lparr>elements := elements s @ [el]\<rparr>;
            s2 = s1\<lparr>container := (container s1)\<lparr>children :=
                      filter (\<lambda>c. c \<noteq> r) (children (container s1)) @ [r]\<rparr>\<rparr>
        in s2\<lparr>overlays := overlays s2 @ [r]\<rparr>)"

definition createClickOverlays :: "component \<Rightarrow> component" where
  "createClickOverlays s = fold createOverlay overlayConfigs s"

text \<open>\<open>f.bind(this)\<close>: a new function object, numbered by the counter of the state.\<close>

definition bindOverlay :: "nat \<Rightarrow> component \<Rightarrow> component" where
  "bindOverlay r s =
     (let k = fnCount s;
          s1 = update_element r (\<lambda>e. e\<lparr>listeners :=
                 addEventListener (listeners e) ''click'' (BoundFn HandleInteraction k)\<rparr>) s;
          s2 = update_element r (\<lambda>e. e\<lparr>listeners :=
                 addEventListener (listeners e) ''touchend'' (BoundFn HandleTouchInteraction (k + 1))\<rparr>) s1;
          s3 = update_element r (\<lambda>e. e\<lparr>listeners :=
                 addEventListener (listeners e) ''keydown'' (BoundFn HandleKeyboard (k + 2))\<rparr>) s2
      in s3\<lparr>fnCount := k + 3\<rparr>)"

definition bindEvents :: "component \<Rightarrow> component" where
  "bindEvents s =
     (let s1 = fold bindOverlay (overlays s) s in
      if enableClickOutside (config s1)
      then s1\<lparr>documentListeners :=
                 addEventListener (documentListeners s1) ''click'' (BoundFn HandleClickOutside (fnCount s1)),
               fnCount := fnCount s1 + 1\<rparr>
      else s1)"

definition enableDebugMode :: "component \<Rightarrow> component" where
  "enableDebugMode s =
     (let s1 = fold (\<lambda>r. update_element r (\<lambda>e. e\<lparr>style_background := ''rgba(255, 0, 0, 0.3)'',
                 style_border := ''2px solid red'', style_opacity := ''0.8''\<rparr>)) (overlays s) s
      in s1\<lparr>console := console s1 @
               [(''log'', ''StackedPhones Debug Mode: Click areas are now visible'')]\<rparr>)"

definition disableDebugMode :: "component \<Rightarrow> component" where
  "disableDebugMode s =
     (let s1 = fold (\<lambda>r. update_element r (\<lambda>e. e\<lparr>style_background := ''transparent'',
                 style_border := ''none'', style_opacity := ''1''\<rparr>)) (overlays s) s;
          s2 = s1\<lparr>config := (config s1)\<lparr>debugMode := False\<rparr>\<rparr>
      in s2\<lparr>console := console s2 @ [(''log'', ''StackedPhones Debug Mode: Disabled'')]\<rparr>)"

definition init :: "component \<Rightarrow> component" where
  "init s =
     (let s1 = createClickOverlays s;
          s2 = bindEvents s1
      in if debugMode (config s2) then enableDebugMode s2 else s2)"

text \<open>
  The constructor is \<open>StackedPhones_new\<close>: the body \<open>construct\<close> applied to the
  configuration literal of the source, \<open>default_config\<close>. Every state of the claims
  comes from \<open>StackedPhones_new\<close>. The second statement,
  \<open>container.querySelectorAll('.phone-card')\<close>, reads the container before the test
  \<open>!container\<close>: on \<open>null\<close> it throws a TypeError. \<open>initial_fields\<close> are the
  assignments to the fields before that test.
\<close>

definition default_config :: config where
  "default_config = \<lparr>debugMode = False, enableClickOutside = True,
     overlayVisibleWidths = [180, 100, 100], overlayLeftPositions = [0, 200, 320],
     enableHoverFeedback = True\<rparr>"

definition initial_fields :: "config \<Rightarrow> element \<Rightarrow> component" where
  "initial_fields cfg el = \<lparr>container = el, phoneCards = cards el, activeCard = None,
     overlays = [], config = cfg, elements = [], documentListeners = [], console = [],
     dispatched = [], fnCount = 0\<rparr>"

definition construct :: "config \<Rightarrow> element option \<Rightarrow> error + component" where
  "construct cfg c =
     (case c of
        None \<Rightarrow> Inl TypeError
      | Some el \<Rightarrow>
          let s = initial_fields cfg el
          in if c = None \<or> phoneCards s = 0
             then Inr (s\<lparr>console := console s @
                    [(''warn'', ''StackedPhones: Container or phone cards not found'')]\<rparr>)
             else Inr (init s))"

definition StackedPhones_new :: "element option \<Rightarrow> error + component" where
  "StackedPhones_new c = construct default_config c"

subsection \<open>Event handlers\<close>

text \<open>
  \<open>e.target.getAttribute('data-phone')\<close>: the attribute of an overlay element,
  \<open>null\<close> on any other node of the page.
\<close>

definition target_data_phone :: "dom_event \<Rightarrow> component \<Rightarrow> string option" where
  "target_data_phone e s =
     (case ev_target e of
        OverlayNode r \<Rightarrow> if r < length (elements s) then data_phone (elements s ! r) else None
      | OtherNode \<Rightarrow> None)"

text \<open>A handler returns the new state and whether it called \<open>stopPropagation\<close>.\<close>

definition handleInteraction :: "dom_event \<Rightarrow> component \<Rightarrow> component \<times> bool" where
  "handleInteraction e s = (togglePhone (target_data_phone e s) s, True)"

definition handleTouchInteraction :: "dom_event \<Rightarrow> component \<Rightarrow> component \<times> bool" where
  "handleTouchInteraction e s = (togglePhone (target_data_phone e s) s, True)"

definition handleKeyboard :: "dom_event \<Rightarrow> component \<Rightarrow> component \<times> bool" where
  "handleKeyboard e s =
     (if ev_key e = ''Enter'' \<or> ev_key e = '' ''
      then (togglePhone (target_data_phone e s) s, True)
      else (s, False))"

definition handleClickOutside :: "dom_event \<Rightarrow> component \<Rightarrow> component \<times> bool" where
  "handleClickOutside e s =
     (if \<not> target_closest e \<and> truthy (activeCard s) then (deactivateAll s, False)
      else (s, False))"

text \<open>
  Calling a registered function object. A bound function runs the handler on the
  component. The unbound method would run with \<open>this\<close> the event target: the calls on
  the event come first, then \<open>this.togglePhone\<close> is not a function and the exception
  ends the listener, leaving the component as it was.
\<close>

fun call_fn :: "fn \<Rightarrow> dom_event \<Rightarrow> component \<Rightarrow> component \<times> bool" where
  "call_fn (BoundFn HandleInteraction k) e s = handleInteraction e s"
| "call_fn (BoundFn HandleTouchInteraction k) e s = handleTouchInteraction e s"
| "call_fn (BoundFn HandleKeyboard k) e s = handleKeyboard e s"
| "call_fn (BoundFn HandleClickOutside k) e s = handleClickOutside e s"
| "call_fn (Method HandleInteraction) e s = (s, True)"
| "call_fn (Method HandleTouchInteraction) e s = (s, True)"
| "call_fn (Method HandleKeyboard) e s = (s, ev_key e = ''Enter'' \<or> ev_key e = '' '')"
| "call_fn (Method HandleClickOutside) e s = (s, False)"

fun run_listeners :: "listener list \<Rightarrow> dom_event \<Rightarrow> component \<Rightarrow> component \<times> bool" where
  "run_listeners [] e s = (s, False)"
| "run_listeners ((t, f) # ls) e s =
     (if t = ev_type e
      then (case call_fn f e s of (s1, stop1) \<Rightarrow>
              (case run_listeners ls e s1 of (s2, stop2) \<Rightarrow> (s2, stop1 \<or> stop2)))
      else run_listeners ls e s)"

text \<open>
  Dispatch of an input event by the browser: the listeners of the target run first;
  unless one of them stopped the propagation, or the target is no longer in the
  document, the event bubbles to the document and its listeners run.
\<close>

definition dispatch_input :: "dom_event \<Rightarrow> component \<Rightarrow> component" where
  "dispatch_input e s =
     (case ev_target e of
        OverlayNode r \<Rightarrow>
          if r < length (elements s) then
            (case run_listeners (listeners (elements s ! r)) e s of
               (s1, stopped) \<Rightarrow>
                 if stopped \<or> r \<notin> set (children (container s1)) then s1
                 else fst (run_listeners (documentListeners s1) e s1))
          else s
      | OtherNode \<Rightarrow> fst (run_listeners (documentListeners s) e s))"

subsection \<open>Public methods\<close>

definition activatePhone :: "js_value \<Rightarrow> component \<Rightarrow> error + component" where
  "activatePhone phoneNumber s =
     (case toString phoneNumber of
        Inl err \<Rightarrow> Inl err
      | Inr str \<Rightarrow> Inr (togglePhone (Some str) s))"

definition getActivePhone :: "component \<Rightarrow> string option" where
  "getActivePhone s = activeCard s"

definition isPhoneActive :: "js_value \<Rightarrow> component \<Rightarrow> error + bool" where
  "isPhoneActive phoneNumber s =
     (case toString phoneNumber of
        Inl err \<Rightarrow> Inl err
      | Inr str \<Rightarrow> Inr (activeCard s = Some str))"

definition toggleDebugMode :: "component \<Rightarrow> component" where
  "toggleDebugMode s =
     (let s1 = s\<lparr>config := (config s)\<lparr>debugMode := \<not> debugMode (config s)\<rparr>\<rparr>
      in if debugMode (config s1) then enableDebugMode s1 else disableDebugMode s1)"

definition updateOverlayPositions :: "int list option \<Rightarrow> component \<Rightarrow> component" where
  "updateOverlayPositions positions s =
     (case positions of
        None \<Rightarrow> s
      | Some ps \<Rightarrow> if length ps = 3 then s\<lparr>config := (config s)\<lparr>overlayLeftPositions := ps\<rparr>\<rparr> else s)"

definition getPhoneNumbers :: "string list" where
  "getPhoneNumbers = [''1'', ''2'', ''3'']"

definition cycleToNext :: "component \<Rightarrow> error + component" where
  "cycleToNext s =
     (let phones = getPhoneNumbers;
          currentIndex = indexOf phones (activeCard s);
          nextIndex = js_rem (currentIndex + 1) (int (length phones))
      in if currentIndex = -1 then activatePhone (array_get phones 0) s
         else activatePhone (array_get phones nextIndex) s)"

text \<open>
  \<open>destroy\<close>: for every overlay the three calls of \<open>removeEventListener\<close> are given
  the methods of the prototype, then the element is removed from its parent.
\<close>

definition destroyOverlay :: "nat \<Rightarrow> component \<Rightarrow> component" where
  "destroyOverlay r s =
     (let s1 = update_element r (\<lambda>e. e\<lparr>listeners :=
                 removeEventListener (listeners e) ''click'' (Method HandleInteraction)\<rparr>) s;
          s2 = update_element r (\<lambda>e. e\<lparr>listeners :=
                 removeEventListener (listeners e) ''touchend'' (Method HandleTouchInteraction)\<rparr>) s1;
          s3 = update_element r (\<lambda>e. e\<lparr>listeners :=
                 removeEventListener (listeners e) ''keydown'' (Method HandleKeyboard)\<rparr>) s2
      in s3\<lparr>container := (container s3)\<lparr>children :=
                 filter (\<lambda>c. c \<noteq> r) (children (container s3))\<rparr>\<rparr>)"

definition destroy :: "component \<Rightarrow> component" where
  "destroy s =
     (let s1 = fold destroyOverlay (overlays s) s;
          s2 = (if enableClickOutside (config s1)
                then s1\<lparr>documentListeners :=
                       removeEventListener (documentListeners s1) ''click'' (Method HandleClickOutside)\<rparr>
                else s1);
          s3 = s2\<lparr>overlays := []\<rparr>;
          s4 = s3\<lparr>activeCard := None\<rparr>
      in s4\<lparr>console := console s4 @ [(''log'', ''StackedPhones: Component destroyed'')]\<rparr>)"

section \<open>States of the interaction controller\<close>

text \<open>The notifications dispatched on the container between two states of a run.\<close>

definition emitted :: "component \<Rightarrow> component \<Rightarrow> custom_event list" where
  "emitted s s' = drop (length (dispatched s)) (dispatched s')"

text \<open>
  What the constructor leaves on the overlay elements and on the document: the three
  elements carry the identifiers \<open>"1"\<close>, \<open>"2"\<close>, \<open>"3"\<close> and the bound click, touch
  and keyboard listeners, and the document carries the bound outside-click listener
  (the configuration literal of the constructor enables it). Nothing is said about the
  current value of the configuration: a caller can assign to its fields later.
\<close>

definition wired :: "component \<Rightarrow> bool" where
  "wired s \<longleftrightarrow>
     map data_phone (elements s) = [Some ''1'', Some ''2'', Some ''3''] \<and>
     map listeners (elements s) =
       [[(''click'', BoundFn HandleInteraction 0), (''touchend'', BoundFn HandleTouchInteraction 1),
         (''keydown'', BoundFn HandleKeyboard 2)],
        [(''click'', BoundFn HandleInteraction 3), (''touchend'', BoundFn HandleTouchInteraction 4),
         (''keydown'', BoundFn HandleKeyboard 5)],
        [(''click'', BoundFn HandleInteraction 6), (''touchend'', BoundFn HandleTouchInteraction 7),
         (''keydown'', BoundFn HandleKeyboard 8)]] \<and>
     documentListeners s = [(''click'', BoundFn HandleClickOutside 9)]"

text \<open>
  A component that has been set up by the constructor and not destroyed: it is wired,
  \<open>this.overlays\<close> refers to the three elements, and they are children of the container.
\<close>

definition mounted :: "component \<Rightarrow> bool" where
  "mounted s \<longleftrightarrow>
     wired s \<and> overlays s = [0, 1, 2] \<and>
     list_all (\<lambda>r. r \<in> set (children (container s))) (overlays s)"

text \<open>
  The presentation marker agrees with the selection: the class of an item is on the
  container exactly when the item is the selection, and the selection is none or an item.
\<close>

definition markers_agree :: "component \<Rightarrow> bool" where
  "markers_agree s \<longleftrightarrow>
     list_all (\<lambda>X. classList_contains (classList (container s)) (cardClass (Some X)) =
                    (activeCard s = Some X)) getPhoneNumbers \<and>
     (case activeCard s of None \<Rightarrow> True | Some X \<Rightarrow> X \<in> set getPhoneNumbers)"

text \<open>
  The accessibility flags agree with the selection: \<open>aria-pressed\<close> and
  \<open>aria-expanded\<close> are \<open>"true"\<close> exactly on the overlay whose identifier is the
  selection. \<open>flags_written\<close> is stronger: every flag is set, to \<open>"true"\<close> on that
  overlay and to \<open>"false"\<close> on the others.
\<close>

definition flags_agree :: "component \<Rightarrow> bool" where
  "flags_agree s \<longleftrightarrow>
     list_all (\<lambda>r. (aria_pressed (elements s ! r) = Some ''true'') =
                      (activeCard s \<noteq> None \<and> data_phone (elements s ! r) = activeCard s) \<and>
                    (aria_expanded (elements s ! r) = Some ''true'') =
                      (activeCard s \<noteq> None \<and> data_phone (elements s ! r) = activeCard s))
       (overlays s)"

definition flags_written :: "component \<Rightarrow> bool" where
  "flags_written s \<longleftrightarrow>
     list_all (\<lambda>r. aria_pressed (elements s ! r) =
                      Some (bool_toString (activeCard s \<noteq> None \<and> data_phone (elements s ! r) = activeCard s)) \<and>
                    aria_expanded (elements s ! r) =
                      Some (bool_toString (activeCard s \<noteq> None \<and> data_phone (elements s ! r) = activeCard s)))
       (overlays s)"

definition consistent :: "component \<Rightarrow> bool" where
  "consistent s \<longleftrightarrow> markers_agree s \<and> flags_agree s"

text \<open>
  The two logical states of the state machine, on a mounted component whose marker and
  flags agree with the selection.
\<close>

definition Idle :: "component \<Rightarrow> bool" where
  "Idle s \<longleftrightarrow> mounted s \<and> consistent s \<and> activeCard s = None"

definition Active :: "string \<Rightarrow> component \<Rightarrow> bool" where
  "Active X s \<longleftrightarrow> mounted s \<and> consistent s \<and> activeCard s = Some X"


section \<open>Sequences of operations, examples\<close>

text \<open>Sequencing of operations that may throw: the first exception ends the run.\<close>

definition andThen :: "error + 'a \<Rightarrow> ('a \<Rightarrow> error + 'b) \<Rightarrow> error + 'b" where
  "andThen r f = (case r of Inl err \<Rightarrow> Inl err | Inr x \<Rightarrow> f x)"

text \<open>
  The activation operations of a caller: \<open>togglePhone\<close> with a string, \<open>activatePhone\<close>
  with any value. An argument is an item identifier when its string form is one of
  \<open>getPhoneNumbers\<close>.
\<close>

datatype activation = TogglePhone string | ActivatePhone js_value

fun activate :: "activation \<Rightarrow> component \<Rightarrow> error + component" where
  "activate (TogglePhone x) s = Inr (togglePhone (Some x) s)"
| "activate (ActivatePhone v) s = activatePhone v s"

fun run_activations :: "activation list \<Rightarrow> component \<Rightarrow> error + component" where
  "run_activations [] s = Inr s"
| "run_activations (a # as) s = andThen (activate a s) (run_activations as)"

fun item_argument :: "activation \<Rightarrow> bool" where
  "item_argument (TogglePhone x) = (x \<in> set getPhoneNumbers)"
| "item_argument (ActivatePhone v) =
     (case toString v of Inl err \<Rightarrow> False | Inr x \<Rightarrow> x \<in> set getPhoneNumbers)"

text \<open>The presentation markers on the container: the classes \<open>phone-X-active\<close> of the items.\<close>

definition markers_of :: "component \<Rightarrow> string list" where
  "markers_of s =
     filter (\<lambda>t. t \<in> set (map (\<lambda>X. cardClass (Some X)) getPhoneNumbers)) (classList (container s))"

definition at_most_one_active :: "component \<Rightarrow> bool" where
  "at_most_one_active s \<longleftrightarrow>
     (case activeCard s of None \<Rightarrow> True | Some X \<Rightarrow> X \<in> set getPhoneNumbers) \<and>
     length (markers_of s) \<le> 1"

text \<open>
  A page with one container holding three cards, and the component constructed on it.
\<close>

definition page_container :: element where
  "page_container = \<lparr>classList = [''phone-stack-container''], cards = 3, children = []\<rparr>"

definition idle_example :: component where
  "idle_example = init (initial_fields default_config page_container)"

text \<open>
  The overlay of an item, found through \<open>this.overlays\<close> by its \<open>data-phone\<close>
  attribute, and the value of its \<open>aria-pressed\<close> and \<open>aria-expanded\<close> attributes
  (\<open>None\<close> when there is no such overlay or the attribute is not set).
\<close>

definition overlay_for :: "component \<Rightarrow> string \<Rightarrow> overlay option" where
  "overlay_for s X = find (\<lambda>e. data_phone e = Some X) (map (\<lambda>r. elements s ! r) (overlays s))"

definition pressed_flag :: "component \<Rightarrow> string \<Rightarrow> string option" where
  "pressed_flag s X = (case overlay_for s X of None \<Rightarrow> None | Some e \<Rightarrow> aria_pressed e)"

definition expanded_flag :: "component \<Rightarrow> string \<Rightarrow> string option" where
  "expanded_flag s X = (case overlay_for s X of None \<Rightarrow> None | Some e \<Rightarrow> aria_expanded e)"

definition active1_example :: component where
  "active1_example = togglePhone (Some ''1'') idle_example"


text \<open>
  Clicks on the page outside the component's root: on a node that no element matching
  \<open>.phone-stack-container\<close> contains, and on a node inside the container of another
  component of the same page.
\<close>

definition click_outside_all :: dom_event where
  "click_outside_all = \<lparr>ev_type = ''click'', ev_key = [], ev_target = OtherNode,
     target_in_root = False, target_closest = False\<rparr>"

definition click_in_other_stack :: dom_event where
  "click_in_other_stack = \<lparr>ev_type = ''click'', ev_key = [], ev_target = OtherNode,
     target_in_root = False, target_closest = True\<rparr>"

text \<open>
  The example component with item 1 active, after the caller's assignment
  \<open>sp.config.enableClickOutside = false\<close>.
\<close>

definition flag_cleared_example :: component where
  "flag_cleared_example =
     active1_example\<lparr>config := (config active1_example)\<lparr>enableClickOutside := False\<rparr>\<rparr>"

text \<open>
  The transitions of the interaction controller: an activation by a caller, a call of
  \<open>cycleToNext\<close>, and an input event dispatched by the browser. An input event is
  well formed when its target is one of the three overlays or another node.
\<close>

datatype action = Activation activation | Cycle | Input dom_event

fun step :: "action \<Rightarrow> component \<Rightarrow> error + component" where
  "step (Activation a) s = activate a s"
| "step Cycle s = cycleToNext s"
| "step (Input e) s = Inr (dispatch_input e s)"

fun valid_action :: "action \<Rightarrow> bool" where
  "valid_action (Activation a) = item_argument a"
| "valid_action Cycle = True"
| "valid_action (Input e) = (case ev_target e of OverlayNode r \<Rightarrow> r < 3 | OtherNode \<Rightarrow> True)"

fun run_actions :: "action list \<Rightarrow> component \<Rightarrow> error + component" where
  "run_actions [] s = Inr s"
| "run_actions (a # as) s = andThen (step a s) (run_actions as)"

text \<open>
  The invariant of a constructed component: it is mounted, marker and flags agree with
  the selection, and once a notification has been emitted the flags are written out.
\<close>

definition settled :: "component \<Rightarrow> bool" where
  "settled s \<longleftrightarrow> mounted s \<and> consistent s \<and> (dispatched s = [] \<or> flags_written s)"

definition click_overlay :: "nat \<Rightarrow> dom_event" where
  "click_overlay r = \<lparr>ev_type = ''click'', ev_key = [], ev_target = OverlayNode r,
     target_in_root = True, target_closest = True\<rparr>"

text \<open>
  The example component after \<open>destroy()\<close>, and a click event fired on an overlay
  element that \<open>destroy()\<close> has removed from the document.
\<close>

definition destroyed_example :: component where
  "destroyed_example = destroy idle_example"

definition click_removed_overlay :: "nat \<Rightarrow> dom_event" where
  "click_removed_overlay r = \<lparr>ev_type = ''click'', ev_key = [], ev_target = OverlayNode r,
     target_in_root = False, target_closest = False\<rparr>"

text \<open>A container with no cards, and the instance the constructor returns for it.\<close>

definition empty_container :: element where
  "empty_container = \<lparr>classList = [''phone-stack-container''], cards = 0, children = []\<rparr>"

definition inert_example :: component where
  "inert_example = (initial_fields default_config empty_container)
     \<lparr>console := [(''warn'', ''StackedPhones: Container or phone cards not found'')]\<rparr>"

section \<open>Frame lemmas\<close>

lemma decimal_small:
  "decimal 1 = ''1''" "decimal 2 = ''2''" "decimal 3 = ''3''"
  "decimal (Suc 0) = ''1''" "decimal (Suc (Suc 0)) = ''2''" "decimal (Suc (Suc (Suc 0))) = ''3''"
  by (simp_all add: decimal.simps digit_char_def)

lemma cardClass_token_ok: "X \<in> set getPhoneNumbers \<Longrightarrow> token_ok (cardClass (Some X))"
  by (auto simp: getPhoneNumbers_def cardClass_def token_ok_def)

lemma cardClass_items:
  "cardClass (Some ''1'') = ''phone-1-active''"
  "cardClass (Some ''2'') = ''phone-2-active''"
  "cardClass (Some ''3'') = ''phone-3-active''"
  by (simp_all add: cardClass_def)

lemma update_element_map:
  assumes "\<And>e. g (f e) = g e"
  shows "map g (elements (update_element r f s)) = map g (elements s)"
proof (cases "r < length (elements s)")
  case True
  then show ?thesis
    using assms by (simp add: update_element_def map_update list_update_same_conv)
next
  case False
  then have "(elements s)[r := f (elements s ! r)] = elements s"
    by (simp add: list_update_beyond)
  then show ?thesis by (simp add: update_element_def)
qed

lemma update_element_frame [simp]:
  "container (update_element r f s) = container s"
  "phoneCards (update_element r f s) = phoneCards s"
  "activeCard (update_element r f s) = activeCard s"
  "overlays (update_element r f s) = overlays s"
  "config (update_element r f s) = config s"
  "documentListeners (update_element r f s) = documentListeners s"
  "console (update_element r f s) = console s"
  "dispatched (update_element r f s) = dispatched s"
  "fnCount (update_element r f s) = fnCount s"
  "length (elements (update_element r f s)) = length (elements s)"
  by (simp_all add: update_element_def)

lemma updateAriaStates_from_frame:
  "container (updateAriaStates_from i rs a s) = container s \<and>
   phoneCards (updateAriaStates_from i rs a s) = phoneCards s \<and>
   activeCard (updateAriaStates_from i rs a s) = activeCard s \<and>
   overlays (updateAriaStates_from i rs a s) = overlays s \<and>
   config (updateAriaStates_from i rs a s) = config s \<and>
   documentListeners (updateAriaStates_from i rs a s) = documentListeners s \<and>
   console (updateAriaStates_from i rs a s) = console s \<and>
   dispatched (updateAriaStates_from i rs a s) = dispatched s \<and>
   fnCount (updateAriaStates_from i rs a s) = fnCount s \<and>
   map data_phone (elements (updateAriaStates_from i rs a s)) = map data_phone (elements s) \<and>
   map listeners (elements (updateAriaStates_from i rs a s)) = map listeners (elements s)"
proof (induction rs arbitrary: i s)
  case Nil
  then show ?case by simp
next
  case (Cons r rs)
  show ?case
    by (simp add: Cons.IH Let_def update_element_map)
qed

lemma updateAriaStates_frame [simp]:
  "container (updateAriaStates a s) = container s"
  "phoneCards (updateAriaStates a s) = phoneCards s"
  "activeCard (updateAriaStates a s) = activeCard s"
  "overlays (updateAriaStates a s) = overlays s"
  "config (updateAriaStates a s) = config s"
  "documentListeners (updateAriaStates a s) = documentListeners s"
  "console (updateAriaStates a s) = console s"
  "dispatched (updateAriaStates a s) = dispatched s"
  "fnCount (updateAriaStates a s) = fnCount s"
  "map data_phone (elements (updateAriaStates a s)) = map data_phone (elements s)"
  "map listeners (elements (updateAriaStates a s)) = map listeners (elements s)"
  by (simp_all add: updateAriaStates_def updateAriaStates_from_frame)

lemma updateAriaStates_three:
  assumes "overlays s = [0, 1, 2]" and "elements s = [e0, e1, e2]"
  shows "elements (updateAriaStates a s) =
     [e0\<lparr>aria_pressed := Some (bool_toString (Some ''1'' = a)),
          aria_expanded := Some (bool_toString (Some ''1'' = a))\<rparr>,
      e1\<lparr>aria_pressed := Some (bool_toString (Some ''2'' = a)),
          aria_expanded := Some (bool_toString (Some ''2'' = a))\<rparr>,
      e2\<lparr>aria_pressed := Some (bool_toString (Some ''3'' = a)),
          aria_expanded := Some (bool_toString (Some ''3'' = a))\<rparr>]"
  using assms by (simp add: updateAriaStates_def update_element_def Let_def decimal_small)


lemma dispatchEvent_frame [simp]:
  "container (dispatchEvent n d s) = container s"
  "phoneCards (dispatchEvent n d s) = phoneCards s"
  "activeCard (dispatchEvent n d s) = activeCard s"
  "overlays (dispatchEvent n d s) = overlays s"
  "config (dispatchEvent n d s) = config s"
  "elements (dispatchEvent n d s) = elements s"
  "documentListeners (dispatchEvent n d s) = documentListeners s"
  "console (dispatchEvent n d s) = console s"
  "dispatched (dispatchEvent n d s) = dispatched s @ [CustomEvent n d]"
  "fnCount (dispatchEvent n d s) = fnCount s"
  by (simp_all add: dispatchEvent_def)

lemma deactivateAll_frame [simp]:
  "classList (container (deactivateAll s)) =
     classList_remove (classList (container s)) [''phone-1-active'', ''phone-2-active'', ''phone-3-active'']"
  "cards (container (deactivateAll s)) = cards (container s)"
  "children (container (deactivateAll s)) = children (container s)"
  "phoneCards (deactivateAll s) = phoneCards s"
  "activeCard (deactivateAll s) = None"
  "overlays (deactivateAll s) = overlays s"
  "config (deactivateAll s) = config s"
  "documentListeners (deactivateAll s) = documentListeners s"
  "console (deactivateAll s) = console s"
  "dispatched (deactivateAll s) = dispatched s @ [CustomEvent ''phoneDeactivated'' []]"
  "fnCount (deactivateAll s) = fnCount s"
  "map data_phone (elements (deactivateAll s)) = map data_phone (elements s)"
  "map listeners (elements (deactivateAll s)) = map listeners (elements s)"
  by (simp_all add: deactivateAll_def Let_def)

lemma togglePhone_frame [simp]:
  "cards (container (togglePhone p s)) = cards (container s)"
  "children (container (togglePhone p s)) = children (container s)"
  "phoneCards (togglePhone p s) = phoneCards s"
  "overlays (togglePhone p s) = overlays s"
  "config (togglePhone p s) = config s"
  "documentListeners (togglePhone p s) = documentListeners s"
  "console (togglePhone p s) = console s"
  "fnCount (togglePhone p s) = fnCount s"
  "map data_phone (elements (togglePhone p s)) = map data_phone (elements s)"
  "map listeners (elements (togglePhone p s)) = map listeners (elements s)"
  by (simp_all add: togglePhone_def Let_def)

lemma togglePhone_off:
  "classList_contains (classList (container s)) (cardClass p) \<Longrightarrow> togglePhone p s = deactivateAll s"
  by (simp add: togglePhone_def)

lemma togglePhone_on:
  assumes "\<not> classList_contains (classList (container s)) (cardClass p)"
  shows "activeCard (togglePhone p s) = p"
    and "classList (container (togglePhone p s)) =
           classList_add (classList_remove (classList (container s))
             [''phone-1-active'', ''phone-2-active'', ''phone-3-active'']) (cardClass p)"
    and "dispatched (togglePhone p s) =
           dispatched s @ [CustomEvent ''phoneDeactivated'' [], CustomEvent ''phoneActivated'' [(''phoneNumber'', p)]]"
  using assms by (simp_all add: togglePhone_def Let_def)

lemma mounted_deactivateAll [simp]: "mounted (deactivateAll s) = mounted s"
  by (simp add: mounted_def wired_def)

lemma mounted_togglePhone [simp]: "mounted (togglePhone p s) = mounted s"
  by (simp add: mounted_def wired_def)

lemma mounted_elements:
  assumes "mounted s"
  obtains e0 e1 e2 where "elements s = [e0, e1, e2]"
    and "data_phone e0 = Some ''1''" and "data_phone e1 = Some ''2''" and "data_phone e2 = Some ''3''"
  using assms unfolding mounted_def wired_def by (auto simp: map_eq_Cons_conv)

lemma mounted_overlays: "mounted s \<Longrightarrow> overlays s = [0, 1, 2]"
  by (simp add: mounted_def wired_def)

lemma elements_deactivateAll:
  assumes "overlays s = [0, 1, 2]" and "elements s = [e0, e1, e2]"
  shows "elements (deactivateAll s) =
     [e0\<lparr>aria_pressed := Some ''false'', aria_expanded := Some ''false''\<rparr>,
      e1\<lparr>aria_pressed := Some ''false'', aria_expanded := Some ''false''\<rparr>,
      e2\<lparr>aria_pressed := Some ''false'', aria_expanded := Some ''false''\<rparr>]"
  using assms
  by (simp add: deactivateAll_def Let_def updateAriaStates_three [where ?e0.0 = e0 and ?e1.0 = e1 and ?e2.0 = e2]
        bool_toString_def)

lemma elements_togglePhone_on:
  assumes "overlays s = [0, 1, 2]" and "elements s = [e0, e1, e2]"
    and "\<not> classList_contains (classList (container s)) (cardClass p)"
  shows "elements (togglePhone p s) =
     [e0\<lparr>aria_pressed := Some (bool_toString (Some ''1'' = p)),
          aria_expanded := Some (bool_toString (Some ''1'' = p))\<rparr>,
      e1\<lparr>aria_pressed := Some (bool_toString (Some ''2'' = p)),
          aria_expanded := Some (bool_toString (Some ''2'' = p))\<rparr>,
      e2\<lparr>aria_pressed := Some (bool_toString (Some ''3'' = p)),
          aria_expanded := Some (bool_toString (Some ''3'' = p))\<rparr>]"
proof -
  let ?d = "deactivateAll s"
  let ?s3 = "?d\<lparr>container := (container ?d)\<lparr>classList :=
                classList_add (classList (container ?d)) (cardClass p)\<rparr>, activeCard := p\<rparr>"
  have "overlays ?s3 = [0, 1, 2]" using assms(1) by simp
  moreover have "elements ?s3 =
     [e0\<lparr>aria_pressed := Some ''false'', aria_expanded := Some ''false''\<rparr>,
      e1\<lparr>aria_pressed := Some ''false'', aria_expanded := Some ''false''\<rparr>,
      e2\<lparr>aria_pressed := Some ''false'', aria_expanded := Some ''false''\<rparr>]"
    using elements_deactivateAll [OF assms(1,2)] by simp
  ultimately have "elements (updateAriaStates p ?s3) =
     [e0\<lparr>aria_pressed := Some (bool_toString (Some ''1'' = p)),
          aria_expanded := Some (bool_toString (Some ''1'' = p))\<rparr>,
      e1\<lparr>aria_pressed := Some (bool_toString (Some ''2'' = p)),
          aria_expanded := Some (bool_toString (Some ''2'' = p))\<rparr>,
      e2\<lparr>aria_pressed := Some (bool_toString (Some ''3'' = p)),
          aria_expanded := Some (bool_toString (Some ''3'' = p))\<rparr>]"
    by (simp add: updateAriaStates_three)
  then show ?thesis using assms(3) by (simp add: togglePhone_def Let_def)
qed


section \<open>Transitions on mounted components\<close>

lemma item_cases:
  assumes "X \<in> set getPhoneNumbers"
  obtains "X = ''1''" | "X = ''2''" | "X = ''3''"
  using assms by (auto simp: getPhoneNumbers_def)

lemma markers_deactivateAll: "markers_agree (deactivateAll s)"
  by (simp add: markers_agree_def getPhoneNumbers_def classList_contains_def classList_remove_def
        cardClass_items)

lemma markers_togglePhone_on:
  assumes "X \<in> set getPhoneNumbers"
    and "\<not> classList_contains (classList (container s)) (cardClass (Some X))"
  shows "markers_agree (togglePhone (Some X) s)"
proof -
  note on = togglePhone_on(1,2) [OF assms(2)]
  from assms(1) have "X = ''1'' \<or> X = ''2'' \<or> X = ''3''"
    by (simp add: getPhoneNumbers_def)
  then show ?thesis
    using on
    by (auto simp: markers_agree_def getPhoneNumbers_def classList_contains_def
          classList_remove_def classList_add_def cardClass_items)
qed

lemma flags_deactivateAll:
  assumes "mounted s"
  shows "flags_agree (deactivateAll s)" and "flags_written (deactivateAll s)"
proof -
  from assms obtain e0 e1 e2 where el: "elements s = [e0, e1, e2]"
    by (rule mounted_elements)
  have ov: "overlays s = [0, 1, 2]" using assms by (rule mounted_overlays)
  show "flags_agree (deactivateAll s)"
    by (simp add: flags_agree_def ov elements_deactivateAll [OF ov el])
  show "flags_written (deactivateAll s)"
    by (simp add: flags_written_def ov elements_deactivateAll [OF ov el] bool_toString_def)
qed

lemma flags_togglePhone_on:
  assumes "mounted s" and "X \<in> set getPhoneNumbers"
    and "\<not> classList_contains (classList (container s)) (cardClass (Some X))"
  shows "flags_agree (togglePhone (Some X) s)" and "flags_written (togglePhone (Some X) s)"
proof -
  from assms(1) obtain e0 e1 e2 where el: "elements s = [e0, e1, e2]"
    and dp: "data_phone e0 = Some ''1''" "data_phone e1 = Some ''2''" "data_phone e2 = Some ''3''"
    by (rule mounted_elements)
  have ov: "overlays s = [0, 1, 2]" using assms(1) by (rule mounted_overlays)
  note els = elements_togglePhone_on [OF ov el assms(3)]
  note ac = togglePhone_on(1) [OF assms(3)]
  from assms(2) have X: "X = ''1'' \<or> X = ''2'' \<or> X = ''3''"
    by (simp add: getPhoneNumbers_def)
  show "flags_agree (togglePhone (Some X) s)"
    using X by (auto simp: flags_agree_def ov els dp ac bool_toString_def)
  show "flags_written (togglePhone (Some X) s)"
    using X by (auto simp: flags_written_def ov els dp ac bool_toString_def)
qed

lemma deactivateAll_Idle: "mounted s \<Longrightarrow> Idle (deactivateAll s)"
  by (simp add: Idle_def consistent_def markers_deactivateAll flags_deactivateAll)

lemma togglePhone_Active:
  assumes "mounted s" and "X \<in> set getPhoneNumbers"
    and "\<not> classList_contains (classList (container s)) (cardClass (Some X))"
  shows "Active X (togglePhone (Some X) s)"
  using assms
  by (simp add: Active_def consistent_def markers_togglePhone_on flags_togglePhone_on
        togglePhone_on(1))

lemma Active_item: "Active X s \<Longrightarrow> X \<in> set getPhoneNumbers"
  by (auto simp: Active_def consistent_def markers_agree_def)

lemma Active_contains:
  assumes "Active X s" and "Y \<in> set getPhoneNumbers"
  shows "classList_contains (classList (container s)) (cardClass (Some Y)) = (Y = X)"
  using assms by (auto simp: Active_def consistent_def markers_agree_def list_all_iff)

lemma Idle_contains:
  assumes "Idle s" and "Y \<in> set getPhoneNumbers"
  shows "\<not> classList_contains (classList (container s)) (cardClass (Some Y))"
  using assms by (auto simp: Idle_def consistent_def markers_agree_def list_all_iff)


section \<open>Construction\<close>

lemma construct_Some:
  "construct cfg (Some el) =
     (if cards el = 0
      then Inr ((initial_fields cfg el)\<lparr>console := [(''warn'', ''StackedPhones: Container or phone cards not found'')]\<rparr>)
      else Inr (init (initial_fields cfg el)))"
  by (simp add: construct_def initial_fields_def Let_def)

lemma createOverlay_fields:
  "classList (container (createOverlay c s)) = classList (container s)"
  "cards (container (createOverlay c s)) = cards (container s)"
  "children (container (createOverlay c s)) =
     filter (\<lambda>x. x \<noteq> length (elements s)) (children (container s)) @ [length (elements s)]"
  "phoneCards (createOverlay c s) = phoneCards s"
  "activeCard (createOverlay c s) = activeCard s"
  "overlays (createOverlay c s) = overlays s @ [length (elements s)]"
  "config (createOverlay c s) = config s"
  "documentListeners (createOverlay c s) = documentListeners s"
  "console (createOverlay c s) = console s"
  "dispatched (createOverlay c s) = dispatched s"
  "fnCount (createOverlay c s) = fnCount s"
  "length (elements (createOverlay c s)) = Suc (length (elements s))"
  "map data_phone (elements (createOverlay c s)) = map data_phone (elements s) @ [Some (fst (snd c))]"
  "map listeners (elements (createOverlay c s)) = map listeners (elements s) @ [[]]"
  "map aria_pressed (elements (createOverlay c s)) = map aria_pressed (elements s) @ [None]"
  "map aria_expanded (elements (createOverlay c s)) = map aria_expanded (elements s) @ [None]"
  by (simp_all add: createOverlay_def Let_def createElement_def split: prod.splits)

lemma createClickOverlays_initial:
  "classList (container (createClickOverlays (initial_fields cfg el))) = classList el"
  "cards (container (createClickOverlays (initial_fields cfg el))) = cards el"
  "set (children (container (createClickOverlays (initial_fields cfg el)))) = set (children el) \<union> {0, 1, 2}"
  "phoneCards (createClickOverlays (initial_fields cfg el)) = cards el"
  "activeCard (createClickOverlays (initial_fields cfg el)) = None"
  "overlays (createClickOverlays (initial_fields cfg el)) = [0, 1, 2]"
  "config (createClickOverlays (initial_fields cfg el)) = cfg"
  "documentListeners (createClickOverlays (initial_fields cfg el)) = []"
  "console (createClickOverlays (initial_fields cfg el)) = []"
  "dispatched (createClickOverlays (initial_fields cfg el)) = []"
  "fnCount (createClickOverlays (initial_fields cfg el)) = 0"
  "length (elements (createClickOverlays (initial_fields cfg el))) = 3"
  "map data_phone (elements (createClickOverlays (initial_fields cfg el))) = [Some ''1'', Some ''2'', Some ''3'']"
  "map listeners (elements (createClickOverlays (initial_fields cfg el))) = [[], [], []]"
  "map aria_pressed (elements (createClickOverlays (initial_fields cfg el))) = [None, None, None]"
  "map aria_expanded (elements (createClickOverlays (initial_fields cfg el))) = [None, None, None]"
  by (auto simp add: createClickOverlays_def overlayConfigs_def createOverlay_fields initial_fields_def)


lemma bindOverlay_fields:
  "container (bindOverlay r s) = container s"
  "phoneCards (bindOverlay r s) = phoneCards s"
  "activeCard (bindOverlay r s) = activeCard s"
  "overlays (bindOverlay r s) = overlays s"
  "config (bindOverlay r s) = config s"
  "documentListeners (bindOverlay r s) = documentListeners s"
  "console (bindOverlay r s) = console s"
  "dispatched (bindOverlay r s) = dispatched s"
  "fnCount (bindOverlay r s) = fnCount s + 3"
  "length (elements (bindOverlay r s)) = length (elements s)"
  "map data_phone (elements (bindOverlay r s)) = map data_phone (elements s)"
  "map aria_pressed (elements (bindOverlay r s)) = map aria_pressed (elements s)"
  "map aria_expanded (elements (bindOverlay r s)) = map aria_expanded (elements s)"
  by (simp_all add: bindOverlay_def Let_def update_element_map)

lemma bindOverlay_listeners:
  assumes "r < length (elements s)"
  shows "map listeners (elements (bindOverlay r s)) =
     (map listeners (elements s))
       [r := addEventListener (addEventListener (addEventListener (map listeners (elements s) ! r)
                 ''click'' (BoundFn HandleInteraction (fnCount s)))
                 ''touchend'' (BoundFn HandleTouchInteraction (fnCount s + 1)))
                 ''keydown'' (BoundFn HandleKeyboard (fnCount s + 2))]"
  using assms by (simp add: bindOverlay_def Let_def update_element_def map_update)

lemma fold_update_element_frame:
  "container (fold (\<lambda>r. update_element r f) rs s) = container s \<and>
   phoneCards (fold (\<lambda>r. update_element r f) rs s) = phoneCards s \<and>
   activeCard (fold (\<lambda>r. update_element r f) rs s) = activeCard s \<and>
   overlays (fold (\<lambda>r. update_element r f) rs s) = overlays s \<and>
   config (fold (\<lambda>r. update_element r f) rs s) = config s \<and>
   documentListeners (fold (\<lambda>r. update_element r f) rs s) = documentListeners s \<and>
   console (fold (\<lambda>r. update_element r f) rs s) = console s \<and>
   dispatched (fold (\<lambda>r. update_element r f) rs s) = dispatched s \<and>
   fnCount (fold (\<lambda>r. update_element r f) rs s) = fnCount s"
  by (induction rs arbitrary: s) simp_all

lemma fold_update_element_map:
  assumes "\<And>e. g (f e) = g e"
  shows "map g (elements (fold (\<lambda>r. update_element r f) rs s)) = map g (elements s)"
  by (induction rs arbitrary: s) (simp_all add: update_element_map assms)

lemma enableDebugMode_fields:
  "container (enableDebugMode s) = container s"
  "phoneCards (enableDebugMode s) = phoneCards s"
  "activeCard (enableDebugMode s) = activeCard s"
  "overlays (enableDebugMode s) = overlays s"
  "config (enableDebugMode s) = config s"
  "documentListeners (enableDebugMode s) = documentListeners s"
  "dispatched (enableDebugMode s) = dispatched s"
  "fnCount (enableDebugMode s) = fnCount s"
  "map data_phone (elements (enableDebugMode s)) = map data_phone (elements s)"
  "map listeners (elements (enableDebugMode s)) = map listeners (elements s)"
  "map aria_pressed (elements (enableDebugMode s)) = map aria_pressed (elements s)"
  "map aria_expanded (elements (enableDebugMode s)) = map aria_expanded (elements s)"
  by (simp_all add: enableDebugMode_def Let_def fold_update_element_frame fold_update_element_map)

lemma bindEvents_created:
  assumes "overlays s = [0, 1, 2]" and "map listeners (elements s) = [[], [], []]"
    and "fnCount s = 0" and "documentListeners s = []"
  shows "map listeners (elements (bindEvents s)) =
       [[(''click'', BoundFn HandleInteraction 0), (''touchend'', BoundFn HandleTouchInteraction 1),
         (''keydown'', BoundFn HandleKeyboard 2)],
        [(''click'', BoundFn HandleInteraction 3), (''touchend'', BoundFn HandleTouchInteraction 4),
         (''keydown'', BoundFn HandleKeyboard 5)],
        [(''click'', BoundFn HandleInteraction 6), (''touchend'', BoundFn HandleTouchInteraction 7),
         (''keydown'', BoundFn HandleKeyboard 8)]]"
    and "documentListeners (bindEvents s) =
       (if enableClickOutside (config s) then [(''click'', BoundFn HandleClickOutside 9)] else [])"
    and "container (bindEvents s) = container s"
    and "activeCard (bindEvents s) = activeCard s"
    and "overlays (bindEvents s) = overlays s"
    and "config (bindEvents s) = config s"
    and "console (bindEvents s) = console s"
    and "dispatched (bindEvents s) = dispatched s"
    and "map data_phone (elements (bindEvents s)) = map data_phone (elements s)"
    and "map aria_pressed (elements (bindEvents s)) = map aria_pressed (elements s)"
    and "map aria_expanded (elements (bindEvents s)) = map aria_expanded (elements s)"
proof -
  have len: "length (elements s) = 3"
    using assms(2) by (metis length_map length_Cons list.size(3) numeral_3_eq_3)
  let ?s1 = "bindOverlay 0 s"
  let ?s2 = "bindOverlay 1 ?s1"
  let ?s3 = "bindOverlay 2 ?s2"
  have l1: "map listeners (elements ?s1) =
       [[(''click'', BoundFn HandleInteraction 0), (''touchend'', BoundFn HandleTouchInteraction 1),
         (''keydown'', BoundFn HandleKeyboard 2)], [], []]"
  proof -
    have "map listeners (elements ?s1) =
       (map listeners (elements s))
         [0 := addEventListener (addEventListener (addEventListener (map listeners (elements s) ! 0)
                 ''click'' (BoundFn HandleInteraction (fnCount s)))
                 ''touchend'' (BoundFn HandleTouchInteraction (fnCount s + 1)))
                 ''keydown'' (BoundFn HandleKeyboard (fnCount s + 2))]"
      by (rule bindOverlay_listeners) (simp add: len)
    also have "\<dots> = [[(''click'', BoundFn HandleInteraction 0), (''touchend'', BoundFn HandleTouchInteraction 1),
         (''keydown'', BoundFn HandleKeyboard 2)], [], []]"
      unfolding assms(2) by (simp add: assms(3) addEventListener_def)
    finally show ?thesis .
  qed
  have l2: "map listeners (elements ?s2) =
       [[(''click'', BoundFn HandleInteraction 0), (''touchend'', BoundFn HandleTouchInteraction 1),
         (''keydown'', BoundFn HandleKeyboard 2)],
        [(''click'', BoundFn HandleInteraction 3), (''touchend'', BoundFn HandleTouchInteraction 4),
         (''keydown'', BoundFn HandleKeyboard 5)], []]"
  proof -
    have "map listeners (elements ?s2) =
       (map listeners (elements ?s1))
         [1 := addEventListener (addEventListener (addEventListener (map listeners (elements ?s1) ! 1)
                 ''click'' (BoundFn HandleInteraction (fnCount ?s1)))
                 ''touchend'' (BoundFn HandleTouchInteraction (fnCount ?s1 + 1)))
                 ''keydown'' (BoundFn HandleKeyboard (fnCount ?s1 + 2))]"
      by (rule bindOverlay_listeners) (simp add: len bindOverlay_fields)
    also have "\<dots> = [[(''click'', BoundFn HandleInteraction 0), (''touchend'', BoundFn HandleTouchInteraction 1),
         (''keydown'', BoundFn HandleKeyboard 2)],
        [(''click'', BoundFn HandleInteraction 3), (''touchend'', BoundFn HandleTouchInteraction 4),
         (''keydown'', BoundFn HandleKeyboard 5)], []]"
      unfolding l1 by (simp add: assms(3) bindOverlay_fields addEventListener_def)
    finally show ?thesis .
  qed
  have l3: "map listeners (elements ?s3) =
       [[(''click'', BoundFn HandleInteraction 0), (''touchend'', BoundFn HandleTouchInteraction 1),
         (''keydown'', BoundFn HandleKeyboard 2)],
        [(''click'', BoundFn HandleInteraction 3), (''touchend'', BoundFn HandleTouchInteraction 4),
         (''keydown'', BoundFn HandleKeyboard 5)],
        [(''click'', BoundFn HandleInteraction 6), (''touchend'', BoundFn HandleTouchInteraction 7),
         (''keydown'', BoundFn HandleKeyboard 8)]]"
  proof -
    have "map listeners (elements ?s3) =
       (map listeners (elements ?s2))
         [2 := addEventListener (addEventListener (addEventListener (map listeners (elements ?s2) ! 2)
                 ''click'' (BoundFn HandleInteraction (fnCount ?s2)))
                 ''touchend'' (BoundFn HandleTouchInteraction (fnCount ?s2 + 1)))
                 ''keydown'' (BoundFn HandleKeyboard (fnCount ?s2 + 2))]"
      by (rule bindOverlay_listeners) (simp add: len bindOverlay_fields)
    also have "\<dots> = [[(''click'', BoundFn HandleInteraction 0), (''touchend'', BoundFn HandleTouchInteraction 1),
         (''keydown'', BoundFn HandleKeyboard 2)],
        [(''click'', BoundFn HandleInteraction 3), (''touchend'', BoundFn HandleTouchInteraction 4),
         (''keydown'', BoundFn HandleKeyboard 5)],
        [(''click'', BoundFn HandleInteraction 6), (''touchend'', BoundFn HandleTouchInteraction 7),
         (''keydown'', BoundFn HandleKeyboard 8)]]"
      unfolding l2 by (simp add: assms(3) bindOverlay_fields addEventListener_def)
    finally show ?thesis .
  qed
  define t where "t = ?s3"
  have f: "fold bindOverlay (overlays s) s = t" by (simp add: assms(1) t_def)
  have fc: "fnCount t = 9" using assms(3) by (simp add: bindOverlay_fields t_def)
  have fr: "container t = container s" "activeCard t = activeCard s" "overlays t = overlays s"
    "config t = config s" "console t = console s" "dispatched t = dispatched s"
    "documentListeners t = documentListeners s"
    "map data_phone (elements t) = map data_phone (elements s)"
    "map aria_pressed (elements t) = map aria_pressed (elements s)"
    "map aria_expanded (elements t) = map aria_expanded (elements s)"
    by (simp_all add: bindOverlay_fields t_def)
  note lt = l3 [folded t_def]
  show "map listeners (elements (bindEvents s)) =
       [[(''click'', BoundFn HandleInteraction 0), (''touchend'', BoundFn HandleTouchInteraction 1),
         (''keydown'', BoundFn HandleKeyboard 2)],
        [(''click'', BoundFn HandleInteraction 3), (''touchend'', BoundFn HandleTouchInteraction 4),
         (''keydown'', BoundFn HandleKeyboard 5)],
        [(''click'', BoundFn HandleInteraction 6), (''touchend'', BoundFn HandleTouchInteraction 7),
         (''keydown'', BoundFn HandleKeyboard 8)]]"
    unfolding bindEvents_def f Let_def by (simp add: lt)
  show "documentListeners (bindEvents s) =
       (if enableClickOutside (config s) then [(''click'', BoundFn HandleClickOutside 9)] else [])"
    unfolding bindEvents_def f Let_def
    by (simp add: fr fc assms(4) addEventListener_def)
  show "container (bindEvents s) = container s" "activeCard (bindEvents s) = activeCard s"
    "overlays (bindEvents s) = overlays s" "config (bindEvents s) = config s"
    "console (bindEvents s) = console s" "dispatched (bindEvents s) = dispatched s"
    "map data_phone (elements (bindEvents s)) = map data_phone (elements s)"
    "map aria_pressed (elements (bindEvents s)) = map aria_pressed (elements s)"
    "map aria_expanded (elements (bindEvents s)) = map aria_expanded (elements s)"
    unfolding bindEvents_def f Let_def by (simp_all add: fr)
qed


lemma mounted_enableDebugMode: "mounted (enableDebugMode s) = mounted s"
  by (simp add: mounted_def wired_def enableDebugMode_fields)

lemma default_config_flags: "enableClickOutside default_config" "\<not> debugMode default_config"
  by (simp_all add: default_config_def)

lemma init_configured:
  assumes "enableClickOutside cfg"
  shows "mounted (init (initial_fields cfg el))"
  "activeCard (init (initial_fields cfg el)) = None"
  "classList (container (init (initial_fields cfg el))) = classList el"
  "cards (container (init (initial_fields cfg el))) = cards el"
  "dispatched (init (initial_fields cfg el)) = []"
  "config (init (initial_fields cfg el)) = cfg"
  "map aria_pressed (elements (init (initial_fields cfg el))) = [None, None, None]"
  "map aria_expanded (elements (init (initial_fields cfg el))) = [None, None, None]"
proof -
  define c where "c = createClickOverlays (initial_fields cfg el)"
  note cf = createClickOverlays_initial [of cfg el, folded c_def]
  define b where "b = bindEvents c"
  note bf = bindEvents_created [OF cf(6) cf(14) cf(11) cf(8), folded b_def]
  have i: "init (initial_fields cfg el) = (if debugMode cfg then enableDebugMode b else b)"
    by (simp add: init_def Let_def c_def [symmetric] b_def [symmetric] bf cf)
  have mb: "mounted b"
    using assms by (simp add: mounted_def wired_def bf cf)
  show "mounted (init (initial_fields cfg el))"
    by (simp add: i mb mounted_enableDebugMode)
  show "activeCard (init (initial_fields cfg el)) = None"
    "classList (container (init (initial_fields cfg el))) = classList el"
    "cards (container (init (initial_fields cfg el))) = cards el"
    "dispatched (init (initial_fields cfg el)) = []"
    "config (init (initial_fields cfg el)) = cfg"
    "map aria_pressed (elements (init (initial_fields cfg el))) = [None, None, None]"
    "map aria_expanded (elements (init (initial_fields cfg el))) = [None, None, None]"
    by (simp_all add: i enableDebugMode_fields bf cf)
qed

lemmas init_initial = init_configured [OF default_config_flags(1)]

lemma init_Idle:
  assumes "list_all (\<lambda>X. \<not> classList_contains (classList el) (cardClass (Some X))) getPhoneNumbers"
  shows "Idle (init (initial_fields default_config el))"
proof -
  let ?s = "init (initial_fields default_config el)"
  have "markers_agree ?s"
    using assms by (simp add: markers_agree_def init_initial list_all_iff)
  moreover have "flags_agree ?s"
  proof -
    obtain e0 e1 e2 where el: "elements ?s = [e0, e1, e2]"
      using init_initial(1) by (rule mounted_elements)
    with init_initial(7,8) [of el] show ?thesis
      by (simp add: flags_agree_def mounted_overlays [OF init_initial(1)] init_initial(2))
  qed
  ultimately show ?thesis
    by (simp add: Idle_def consistent_def init_initial)
qed

section \<open>Input events\<close>

lemma run_listeners_overlay:
  "run_listeners [(''click'', BoundFn HandleInteraction a), (''touchend'', BoundFn HandleTouchInteraction b),
      (''keydown'', BoundFn HandleKeyboard c)] e s =
     (if ev_type e = ''click'' \<or> ev_type e = ''touchend'' \<or>
         (ev_type e = ''keydown'' \<and> (ev_key e = ''Enter'' \<or> ev_key e = '' ''))
      then (togglePhone (target_data_phone e s) s, True) else (s, False))"
  by (auto simp: handleInteraction_def handleTouchInteraction_def handleKeyboard_def)

lemma run_listeners_document:
  "run_listeners [(''click'', BoundFn HandleClickOutside k)] e s =
     (if ev_type e = ''click'' \<and> \<not> target_closest e \<and> truthy (activeCard s)
      then (deactivateAll s, False) else (s, False))"
  by (auto simp: handleClickOutside_def)

lemma mounted_wired: "mounted s \<Longrightarrow> wired s"
  by (simp add: mounted_def wired_def)

lemma wired_elements:
  assumes "wired s"
  obtains e0 e1 e2 where "elements s = [e0, e1, e2]"
  using assms unfolding wired_def by (auto simp: map_eq_Cons_conv)

lemma wired_listeners:
  assumes "wired s" and "r < 3"
  shows "\<exists>a b c. listeners (elements s ! r) =
     [(''click'', BoundFn HandleInteraction a), (''touchend'', BoundFn HandleTouchInteraction b),
      (''keydown'', BoundFn HandleKeyboard c)]"
proof -
  from assms(1) obtain e0 e1 e2 where el: "elements s = [e0, e1, e2]"
    by (rule wired_elements)
  from assms(2) have "r = 0 \<or> r = 1 \<or> r = 2" by auto
  then show ?thesis
    using assms(1) by (auto simp: wired_def el)
qed

lemma wired_data_phone:
  assumes "wired s" and "r < 3"
  shows "\<exists>X \<in> set getPhoneNumbers. data_phone (elements s ! r) = Some X"
proof -
  from assms(1) obtain e0 e1 e2 where el: "elements s = [e0, e1, e2]"
    by (rule wired_elements)
  from assms(2) have "r = 0 \<or> r = 1 \<or> r = 2" by auto
  then show ?thesis
    using assms(1) by (auto simp: wired_def el getPhoneNumbers_def)
qed

lemma wired_length: "wired s \<Longrightarrow> length (elements s) = 3"
  by (erule wired_elements) simp

text \<open>An input event on an overlay element of a wired component.\<close>

lemma dispatch_overlay:
  assumes "wired s" and "ev_target e = OverlayNode r" and "r < 3"
  shows "\<exists>X \<in> set getPhoneNumbers. data_phone (elements s ! r) = Some X \<and>
     dispatch_input e s =
       (if ev_type e = ''click'' \<or> ev_type e = ''touchend'' \<or>
           (ev_type e = ''keydown'' \<and> (ev_key e = ''Enter'' \<or> ev_key e = '' ''))
        then togglePhone (Some X) s else s)"
proof -
  from wired_data_phone [OF assms(1,3)] obtain X where
    X: "X \<in> set getPhoneNumbers" "data_phone (elements s ! r) = Some X" by blast
  from wired_listeners [OF assms(1,3)] obtain a b c where
    ls: "listeners (elements s ! r) =
     [(''click'', BoundFn HandleInteraction a), (''touchend'', BoundFn HandleTouchInteraction b),
      (''keydown'', BoundFn HandleKeyboard c)]" by blast
  have len: "r < length (elements s)" using assms(1,3) by (simp add: wired_length)
  have tdp: "target_data_phone e s = Some X"
    using len by (simp add: target_data_phone_def assms(2) X)
  have doc: "documentListeners s = [(''click'', BoundFn HandleClickOutside 9)]"
    using assms(1) by (simp add: wired_def)
  let ?hit = "ev_type e = ''click'' \<or> ev_type e = ''touchend'' \<or>
           (ev_type e = ''keydown'' \<and> (ev_key e = ''Enter'' \<or> ev_key e = '' ''))"
  have rl: "run_listeners (listeners (elements s ! r)) e s =
       (if ?hit then (togglePhone (Some X) s, True) else (s, False))"
    unfolding ls run_listeners_overlay tdp ..
  have rd: "run_listeners (documentListeners s) e s =
       (if ev_type e = ''click'' \<and> \<not> target_closest e \<and> truthy (activeCard s)
        then (deactivateAll s, False) else (s, False))"
    unfolding doc run_listeners_document ..
  have "dispatch_input e s = (if ?hit then togglePhone (Some X) s else s)"
    using len by (cases ?hit) (auto simp add: dispatch_input_def assms(2) rl rd)
  with X show ?thesis by blast
qed

text \<open>An input event on another node of the page.\<close>

lemma dispatch_other:
  assumes "wired s" and "ev_target e = OtherNode"
  shows "dispatch_input e s =
     (if ev_type e = ''click'' \<and> \<not> target_closest e \<and> truthy (activeCard s)
      then deactivateAll s else s)"
proof -
  have doc: "documentListeners s = [(''click'', BoundFn HandleClickOutside 9)]"
    using assms(1) by (simp add: wired_def)
  show ?thesis
    unfolding dispatch_input_def assms(2) doc run_listeners_document by simp
qed

section \<open>Activation sequences\<close>

lemma idle_example_constructed: "StackedPhones_new (Some page_container) = Inr idle_example"
  by (simp add: StackedPhones_new_def construct_Some idle_example_def page_container_def)

lemma marker_classes:
  "map (\<lambda>X. cardClass (Some X)) getPhoneNumbers = [''phone-1-active'', ''phone-2-active'', ''phone-3-active'']"
  by (simp add: getPhoneNumbers_def cardClass_items)

lemma filter_removed: "filter (\<lambda>t. t \<in> set ms) (classList_remove cl ms) = []"
  by (simp add: classList_remove_def filter_empty_conv)

lemma markers_of_deactivateAll: "markers_of (deactivateAll s) = []"
  unfolding markers_of_def marker_classes deactivateAll_frame(1) by (rule filter_removed)

lemma markers_of_togglePhone_on:
  assumes "X \<in> set getPhoneNumbers"
    and "\<not> classList_contains (classList (container s)) (cardClass (Some X))"
  shows "markers_of (togglePhone (Some X) s) = [cardClass (Some X)]"
proof -
  let ?ms = "[''phone-1-active'', ''phone-2-active'', ''phone-3-active'']"
  let ?cl = "classList_remove (classList (container s)) ?ms"
  have in_ms: "cardClass (Some X) \<in> set ?ms"
    using assms(1) by (auto simp: getPhoneNumbers_def cardClass_items)
  then have "cardClass (Some X) \<notin> set ?cl"
    by (simp add: classList_remove_def)
  then have "classList_add ?cl (cardClass (Some X)) = ?cl @ [cardClass (Some X)]"
    by (simp add: classList_add_def)
  then have "markers_of (togglePhone (Some X) s) =
      filter (\<lambda>t. t \<in> set ?ms) ?cl @ filter (\<lambda>t. t \<in> set ?ms) [cardClass (Some X)]"
    unfolding markers_of_def marker_classes togglePhone_on(2) [OF assms(2)] by simp
  also have "\<dots> = [cardClass (Some X)]"
    unfolding filter_removed using in_ms by simp
  finally show ?thesis .
qed

lemma togglePhone_at_most_one:
  assumes "X \<in> set getPhoneNumbers"
  shows "at_most_one_active (togglePhone (Some X) s)"
proof (cases "classList_contains (classList (container s)) (cardClass (Some X))")
  case True
  then show ?thesis
    by (simp add: togglePhone_off at_most_one_active_def markers_of_deactivateAll)
next
  case False
  with assms show ?thesis
    by (simp add: at_most_one_active_def markers_of_togglePhone_on togglePhone_on(1))
qed

lemma activate_at_most_one:
  assumes "item_argument a"
  shows "\<exists>s'. activate a s = Inr s' \<and> at_most_one_active s'"
proof (cases a)
  case (TogglePhone x)
  with assms show ?thesis by (simp add: togglePhone_at_most_one)
next
  case (ActivatePhone v)
  with assms show ?thesis
    by (cases "toString v") (simp_all add: activatePhone_def togglePhone_at_most_one)
qed

lemma run_activations_at_most_one:
  assumes "list_all item_argument as" and "as \<noteq> []"
  shows "\<exists>s'. run_activations as s = Inr s' \<and> at_most_one_active s'"
  using assms
proof (induction as arbitrary: s)
  case Nil
  then show ?case by simp
next
  case (Cons a as)
  from Cons.prems(1) have a: "item_argument a" and as: "list_all item_argument as" by simp_all
  from activate_at_most_one [OF a] obtain s1 where
    s1: "activate a s = Inr s1" "at_most_one_active s1" by blast
  show ?case
  proof (cases "as = []")
    case True
    with s1 show ?thesis by (simp add: andThen_def)
  next
    case False
    from Cons.IH [OF as False] obtain s2 where
      "run_activations as s1 = Inr s2" "at_most_one_active s2" by blast
    with s1 show ?thesis by (simp add: andThen_def)
  qed
qed

section \<open>Switching and toggling off\<close>

lemma flags_of_written:
  assumes "mounted s" and "flags_written s" and "Z \<in> set getPhoneNumbers"
  shows "pressed_flag s Z = Some (bool_toString (activeCard s = Some Z))"
    and "expanded_flag s Z = Some (bool_toString (activeCard s = Some Z))"
proof -
  from assms(1) obtain e0 e1 e2 where el: "elements s = [e0, e1, e2]"
    and dp: "data_phone e0 = Some ''1''" "data_phone e1 = Some ''2''" "data_phone e2 = Some ''3''"
    by (rule mounted_elements)
  have ov: "overlays s = [0, 1, 2]" using assms(1) by (rule mounted_overlays)
  from assms(3) have Z: "Z = ''1'' \<or> Z = ''2'' \<or> Z = ''3''"
    by (simp add: getPhoneNumbers_def)
  show "pressed_flag s Z = Some (bool_toString (activeCard s = Some Z))"
    using Z assms(2)
    by (auto simp: pressed_flag_def overlay_for_def flags_written_def ov el dp bool_toString_def)
  show "expanded_flag s Z = Some (bool_toString (activeCard s = Some Z))"
    using Z assms(2)
    by (auto simp: expanded_flag_def overlay_for_def flags_written_def ov el dp bool_toString_def)
qed

lemma emitted_append: "dispatched s' = dispatched s @ evs \<Longrightarrow> emitted s s' = evs"
  by (simp add: emitted_def)

lemma idle_example_Idle: "Idle idle_example"
  unfolding idle_example_def
  by (rule init_Idle)
    (simp add: page_container_def getPhoneNumbers_def classList_contains_def cardClass_items)

lemma Idle_mounted: "Idle s \<Longrightarrow> mounted s"
  by (simp add: Idle_def)

lemma Active_mounted: "Active X s \<Longrightarrow> mounted s"
  by (simp add: Active_def)

lemma active1_example_Active: "Active ''1'' active1_example"
  unfolding active1_example_def
  by (rule togglePhone_Active)
    (simp_all add: Idle_mounted idle_example_Idle getPhoneNumbers_def
      Idle_contains [OF idle_example_Idle])

text \<open>Activating an item that is not the active one, on a mounted component.\<close>

lemma activate_other:
  assumes "mounted s" and "Y \<in> set getPhoneNumbers"
    and "\<not> classList_contains (classList (container s)) (cardClass (Some Y))"
  shows "activatePhone (JStr Y) s = Inr (togglePhone (Some Y) s)"
    and "Active Y (togglePhone (Some Y) s)"
    and "emitted s (togglePhone (Some Y) s) =
           [CustomEvent ''phoneDeactivated'' [], CustomEvent ''phoneActivated'' [(''phoneNumber'', Some Y)]]"
    and "flags_written (togglePhone (Some Y) s)"
  using assms
  by (simp_all add: activatePhone_def togglePhone_Active emitted_append togglePhone_on(3)
        flags_togglePhone_on(2))

text \<open>Activating the active item.\<close>

lemma activate_same:
  assumes "Active X s"
  shows "activatePhone (JStr X) s = Inr (deactivateAll s)"
    and "Idle (deactivateAll s)"
    and "emitted s (deactivateAll s) = [CustomEvent ''phoneDeactivated'' []]"
    and "flags_written (deactivateAll s)"
proof -
  have c: "classList_contains (classList (container s)) (cardClass (Some X))"
    using Active_contains [OF assms Active_item [OF assms]] by simp
  show "activatePhone (JStr X) s = Inr (deactivateAll s)"
    by (simp add: activatePhone_def togglePhone_off [OF c])
  show "Idle (deactivateAll s)"
    using assms by (simp add: deactivateAll_Idle Active_mounted)
  show "emitted s (deactivateAll s) = [CustomEvent ''phoneDeactivated'' []]"
    by (simp add: emitted_append)
  show "flags_written (deactivateAll s)"
    using assms by (simp add: flags_deactivateAll(2) Active_mounted)
qed

section \<open>Cycling\<close>

lemma cycleToNext_none:
  "activeCard s = None \<Longrightarrow> cycleToNext s = activatePhone (JStr ''1'') s"
  by (simp add: cycleToNext_def indexOf_def getPhoneNumbers_def array_get_def Let_def)

lemma cycleToNext_at:
  assumes "i < 3" and "activeCard s = Some (getPhoneNumbers ! i)"
  shows "cycleToNext s = activatePhone (JStr (getPhoneNumbers ! ((i + 1) mod 3))) s"
proof -
  from assms(1) have "i = 0 \<or> i = 1 \<or> i = 2" by auto
  then show ?thesis
    using assms(2)
    by (auto simp: cycleToNext_def indexOf_def getPhoneNumbers_def array_get_def js_rem_def Let_def)
qed

lemma next_item:
  assumes "i < 3"
  shows "getPhoneNumbers ! ((i + 1) mod 3) \<in> set getPhoneNumbers"
    and "getPhoneNumbers ! ((i + 1) mod 3) \<noteq> getPhoneNumbers ! i"
proof -
  from assms have i: "i = 0 \<or> i = 1 \<or> i = 2" by auto
  from i show "getPhoneNumbers ! ((i + 1) mod 3) \<in> set getPhoneNumbers"
    by (auto simp: getPhoneNumbers_def)
  from i show "getPhoneNumbers ! ((i + 1) mod 3) \<noteq> getPhoneNumbers ! i"
    by (auto simp: getPhoneNumbers_def)
qed





section \<open>Outside clicks\<close>

lemma Active_truthy: "Active X s \<Longrightarrow> truthy (activeCard s)"
  by (frule Active_item) (auto simp: Active_def getPhoneNumbers_def)

lemma Active_config_update:
  "Active X (s\<lparr>config := c\<rparr>) = Active X s"
  by (simp add: Active_def mounted_def wired_def consistent_def markers_agree_def flags_agree_def)

lemma flag_examples:
  "enableClickOutside (config active1_example)"
  "\<not> enableClickOutside (config flag_cleared_example)"
  by (simp_all add: active1_example_def idle_example_def flag_cleared_example_def init_initial
        default_config_flags)

lemma flag_cleared_example_Active: "Active ''1'' flag_cleared_example"
  unfolding flag_cleared_example_def Active_config_update by (rule active1_example_Active)

section \<open>The invariant of the transitions\<close>

lemma settled_deactivateAll: "mounted s \<Longrightarrow> settled (deactivateAll s)"
  using deactivateAll_Idle [of s] by (simp add: settled_def Idle_def flags_deactivateAll(2))

lemma settled_togglePhone:
  assumes "mounted s" and "X \<in> set getPhoneNumbers"
  shows "settled (togglePhone (Some X) s)"
proof (cases "classList_contains (classList (container s)) (cardClass (Some X))")
  case True
  then show ?thesis
    using assms(1) by (simp add: togglePhone_off settled_deactivateAll)
next
  case False
  with togglePhone_Active [OF assms False] flags_togglePhone_on(2) [OF assms False]
  show ?thesis by (simp add: settled_def Active_def)
qed

lemma item_argument_string:
  assumes "item_argument a"
  obtains X where "X \<in> set getPhoneNumbers" and "activate a s = Inr (togglePhone (Some X) s)"
proof (cases a)
  case (TogglePhone x)
  with assms that show ?thesis by simp
next
  case (ActivatePhone v)
  with assms that show ?thesis
    by (cases "toString v") (simp_all add: activatePhone_def)
qed

lemma settled_cycleToNext:
  assumes "settled s"
  shows "\<exists>s'. cycleToNext s = Inr s' \<and> settled s'"
proof (cases "activeCard s")
  case None
  then have "cycleToNext s = Inr (togglePhone (Some ''1'') s)"
    by (simp add: cycleToNext_none activatePhone_def)
  moreover have "settled (togglePhone (Some ''1'') s)"
    using assms by (intro settled_togglePhone) (simp_all add: settled_def getPhoneNumbers_def)
  ultimately show ?thesis by simp
next
  case (Some X)
  with assms have "X \<in> set getPhoneNumbers"
    by (auto simp: settled_def consistent_def markers_agree_def)
  then have "X = getPhoneNumbers ! 0 \<or> X = getPhoneNumbers ! 1 \<or> X = getPhoneNumbers ! 2"
    by (auto simp: getPhoneNumbers_def)
  then have "\<exists>i. i < 3 \<and> X = getPhoneNumbers ! i"
  proof (elim disjE)
    assume "X = getPhoneNumbers ! 0"
    then show ?thesis by (intro exI [of _ 0]) simp
  next
    assume "X = getPhoneNumbers ! 1"
    then show ?thesis by (intro exI [of _ 1]) simp
  next
    assume "X = getPhoneNumbers ! 2"
    then show ?thesis by (intro exI [of _ 2]) simp
  qed
  then obtain i where i: "i < 3" "X = getPhoneNumbers ! i" by blast
  with Some have "cycleToNext s = Inr (togglePhone (Some (getPhoneNumbers ! ((i + 1) mod 3))) s)"
    by (simp add: cycleToNext_at activatePhone_def)
  moreover have "settled (togglePhone (Some (getPhoneNumbers ! ((i + 1) mod 3))) s)"
    using assms i(1) by (intro settled_togglePhone next_item(1)) (simp_all add: settled_def)
  ultimately show ?thesis by simp
qed

lemma settled_dispatch_input:
  assumes "settled s" and "valid_action (Input e)"
  shows "settled (dispatch_input e s)"
proof (cases "ev_target e")
  case (OverlayNode r)
  with assms(2) have r: "r < 3" by simp
  have m: "mounted s" using assms(1) by (simp add: settled_def)
  from dispatch_overlay [OF mounted_wired [OF m] OverlayNode r] obtain X where
    "X \<in> set getPhoneNumbers"
    "dispatch_input e s = togglePhone (Some X) s \<or> dispatch_input e s = s"
    by (auto split: if_splits)
  then show ?thesis
    using assms(1) settled_togglePhone [OF m] by auto
next
  case OtherNode
  have m: "mounted s" using assms(1) by (simp add: settled_def)
  from dispatch_other [OF mounted_wired [OF m] OtherNode]
  have "dispatch_input e s = deactivateAll s \<or> dispatch_input e s = s"
    by (auto split: if_splits)
  then show ?thesis
    using assms(1) settled_deactivateAll [OF m] by auto
qed

lemma settled_step:
  assumes "settled s" and "valid_action a"
  shows "\<exists>s'. step a s = Inr s' \<and> settled s'"
proof (cases a)
  case (Activation act)
  with assms(2) have "item_argument act" by simp
  then obtain X where "X \<in> set getPhoneNumbers" "activate act s = Inr (togglePhone (Some X) s)"
    by (rule item_argument_string)
  moreover have "mounted s" using assms(1) by (simp add: settled_def)
  ultimately show ?thesis
    using Activation by (simp add: settled_togglePhone)
next
  case Cycle
  with settled_cycleToNext [OF assms(1)] show ?thesis by simp
next
  case (Input e)
  with settled_dispatch_input [OF assms(1)] assms(2) show ?thesis by simp
qed

lemma settled_run_actions:
  assumes "settled s" and "list_all valid_action as"
  shows "\<exists>s'. run_actions as s = Inr s' \<and> settled s'"
  using assms
proof (induction as arbitrary: s)
  case Nil
  then show ?case by simp
next
  case (Cons a as)
  from Cons.prems(2) have a: "valid_action a" and as: "list_all valid_action as" by simp_all
  from settled_step [OF Cons.prems(1) a] obtain s1 where
    s1: "step a s = Inr s1" "settled s1" by blast
  from Cons.IH [OF s1(2) as] s1(1) show ?case by (simp add: andThen_def)
qed

lemma settled_init:
  assumes "list_all (\<lambda>X. \<not> classList_contains (classList el) (cardClass (Some X))) getPhoneNumbers"
  shows "settled (init (initial_fields default_config el))"
  using init_Idle [OF assms] by (simp add: settled_def Idle_def init_initial)

section \<open>Teardown\<close>

lemma destroyOverlay_fields:
  "classList (container (destroyOverlay r s)) = classList (container s)"
  "cards (container (destroyOverlay r s)) = cards (container s)"
  "children (container (destroyOverlay r s)) = filter (\<lambda>c. c \<noteq> r) (children (container s))"
  "phoneCards (destroyOverlay r s) = phoneCards s"
  "activeCard (destroyOverlay r s) = activeCard s"
  "overlays (destroyOverlay r s) = overlays s"
  "config (destroyOverlay r s) = config s"
  "documentListeners (destroyOverlay r s) = documentListeners s"
  "console (destroyOverlay r s) = console s"
  "dispatched (destroyOverlay r s) = dispatched s"
  "fnCount (destroyOverlay r s) = fnCount s"
  "length (elements (destroyOverlay r s)) = length (elements s)"
  "map data_phone (elements (destroyOverlay r s)) = map data_phone (elements s)"
  "map aria_pressed (elements (destroyOverlay r s)) = map aria_pressed (elements s)"
  "map aria_expanded (elements (destroyOverlay r s)) = map aria_expanded (elements s)"
  by (simp_all add: destroyOverlay_def Let_def update_element_map)

lemma destroyOverlay_listeners:
  assumes "r < length (elements s)"
  shows "map listeners (elements (destroyOverlay r s)) =
     (map listeners (elements s))
       [r := removeEventListener (removeEventListener (removeEventListener (map listeners (elements s) ! r)
                 ''click'' (Method HandleInteraction))
                 ''touchend'' (Method HandleTouchInteraction))
                 ''keydown'' (Method HandleKeyboard)]"
  using assms by (simp add: destroyOverlay_def Let_def update_element_def map_update)

lemma wired_destroyOverlay:
  assumes "wired s" and "r < 3"
  shows "wired (destroyOverlay r s)"
proof -
  let ?L = "[[(''click'', BoundFn HandleInteraction 0), (''touchend'', BoundFn HandleTouchInteraction 1),
         (''keydown'', BoundFn HandleKeyboard 2)],
        [(''click'', BoundFn HandleInteraction 3), (''touchend'', BoundFn HandleTouchInteraction 4),
         (''keydown'', BoundFn HandleKeyboard 5)],
        [(''click'', BoundFn HandleInteraction 6), (''touchend'', BoundFn HandleTouchInteraction 7),
         (''keydown'', BoundFn HandleKeyboard 8)]]"
  have L: "map listeners (elements s) = ?L" using assms(1) by (simp add: wired_def)
  have len: "r < length (elements s)" using assms by (simp add: wired_length)
  have "map listeners (elements (destroyOverlay r s)) =
     (map listeners (elements s))
       [r := removeEventListener (removeEventListener (removeEventListener (map listeners (elements s) ! r)
                 ''click'' (Method HandleInteraction))
                 ''touchend'' (Method HandleTouchInteraction))
                 ''keydown'' (Method HandleKeyboard)]"
    using len by (rule destroyOverlay_listeners)
  also have "\<dots> = ?L"
  proof -
    from assms(2) have "r = 0 \<or> r = 1 \<or> r = 2" by auto
    then show ?thesis
      unfolding L by (auto simp: removeEventListener_def)
  qed
  finally show ?thesis
    using assms(1) by (simp add: wired_def destroyOverlay_fields)
qed

lemma destroy_mounted:
  assumes "mounted s"
  shows "wired (destroy s)"
    and "overlays (destroy s) = []"
    and "activeCard (destroy s) = None"
    and "classList (container (destroy s)) = classList (container s)"
    and "config (destroy s) = config s"
    and "dispatched (destroy s) = dispatched s"
    and "documentListeners (destroy s) = documentListeners s"
    and "list_all (\<lambda>r. r \<notin> set (children (container (destroy s)))) [0, 1, 2]"
proof -
  define t where "t = destroyOverlay 2 (destroyOverlay 1 (destroyOverlay 0 s))"
  have f: "fold destroyOverlay (overlays s) s = t"
    using assms by (simp add: mounted_overlays t_def)
  have w: "wired t"
    unfolding t_def by (intro wired_destroyOverlay mounted_wired assms) simp_all
  have fr: "overlays t = overlays s" "activeCard t = activeCard s"
    "classList (container t) = classList (container s)" "config t = config s"
    "dispatched t = dispatched s" "documentListeners t = documentListeners s"
    "list_all (\<lambda>r. r \<notin> set (children (container t))) [0, 1, 2]"
    by (simp_all add: t_def destroyOverlay_fields)
  have doc: "removeEventListener (documentListeners t) ''click'' (Method HandleClickOutside) =
      documentListeners t"
    using w by (simp add: wired_def removeEventListener_def)
  have same: "elements (destroy s) = elements t" "config (destroy s) = config t"
    "documentListeners (destroy s) = documentListeners t"
    unfolding destroy_def f Let_def by (simp_all add: doc)
  show "wired (destroy s)"
    using w unfolding wired_def same .
  show "overlays (destroy s) = []" "activeCard (destroy s) = None"
    "classList (container (destroy s)) = classList (container s)"
    "config (destroy s) = config s" "dispatched (destroy s) = dispatched s"
    "documentListeners (destroy s) = documentListeners s"
    "list_all (\<lambda>r. r \<notin> set (children (container (destroy s)))) [0, 1, 2]"
    using fr same(2,3) by (simp_all add: destroy_def f Let_def)
qed

lemma wired_togglePhone: "wired (togglePhone p s) = wired s"
  by (simp add: wired_def)

lemma wired_first: "wired s \<Longrightarrow> data_phone (elements s ! 0) = Some ''1''"
  unfolding wired_def by (auto simp: map_eq_Cons_conv)

section \<open>Construction without cards\<close>

lemma inert_example_constructed: "StackedPhones_new (Some empty_container) = Inr inert_example"
  by (simp add: StackedPhones_new_def construct_Some inert_example_def empty_container_def)

lemma dispatch_input_unbound:
  assumes "elements s = []" and "documentListeners s = []"
  shows "dispatch_input e s = s"
  using assms by (cases "ev_target e") (simp_all add: dispatch_input_def)

lemma activate_unmarked:
  assumes "\<not> classList_contains (classList (container s)) (cardClass (Some X))"
  shows "activatePhone (JStr X) s = Inr (togglePhone (Some X) s)"
    and "getActivePhone (togglePhone (Some X) s) = Some X"
    and "classList_contains (classList (container (togglePhone (Some X) s))) (cardClass (Some X))"
    and "emitted s (togglePhone (Some X) s) =
           [CustomEvent ''phoneDeactivated'' [], CustomEvent ''phoneActivated'' [(''phoneNumber'', Some X)]]"
  using togglePhone_on [OF assms]
  by (simp_all add: activatePhone_def getActivePhone_def emitted_append classList_contains_def
        classList_add_def)

section \<open>The claims\<close>

text \<open>
  Claim C1: for every sequence of activation operations (\<open>togglePhone\<close> and
  \<open>activatePhone\<close>) whose arguments are item identifiers, started in any state of
  the component, after every transition the stored selection is none or one identifier
  of the item set, and the container carries at most one presentation marker.
\<close>

theorem at_most_one_active_after_every_activation:
  assumes "list_all item_argument as" and "0 < n" and "n \<le> length as"
  shows "\<exists>s'. run_activations (take n as) s = Inr s' \<and> at_most_one_active s'"
proof -
  have "list_all item_argument (take n as)"
    using assms(1) by (auto simp: list_all_iff dest: in_set_takeD)
  moreover have "take n as \<noteq> []"
    using assms(2,3) by auto
  ultimately show ?thesis
    by (rule run_activations_at_most_one)
qed

theorem at_most_one_active_witness:
  "list_all item_argument [ActivatePhone (JNum 1), TogglePhone ''2'', ActivatePhone (JStr ''2'')] \<and>
   (\<exists>s'. run_activations (take 3 [ActivatePhone (JNum 1), TogglePhone ''2'', ActivatePhone (JStr ''2'')])
            idle_example = Inr s' \<and> at_most_one_active s')"
  using at_most_one_active_after_every_activation
          [of "[ActivatePhone (JNum 1), TogglePhone ''2'', ActivatePhone (JStr ''2'')]" 3 idle_example]
  by (simp add: getPhoneNumbers_def number_toString_def decimal_small)

text \<open>
  Claim C2, as stated: from \<open>Active(X)\<close>, activating an item \<open>Y \<noteq> X\<close> emits exactly one
  \<open>activated\<close> notification and no \<open>deactivated\<close> notification. The code calls
  \<open>deactivateAll\<close> before it activates \<open>Y\<close>, and \<open>deactivateAll\<close> dispatches
  \<open>phoneDeactivated\<close>: on the component constructed on the example page and brought
  to \<open>Active(1)\<close>, activating item 2 emits \<open>phoneDeactivated\<close> first.
\<close>

theorem switch_emits_deactivated_counterexample:
  "StackedPhones_new (Some page_container) = Inr idle_example \<and>
   activatePhone (JStr ''1'') idle_example = Inr active1_example \<and>
   Active ''1'' active1_example \<and>
   activatePhone (JStr ''2'') active1_example = Inr (togglePhone (Some ''2'') active1_example) \<and>
   emitted active1_example (togglePhone (Some ''2'') active1_example) =
     [CustomEvent ''phoneDeactivated'' [], CustomEvent ''phoneActivated'' [(''phoneNumber'', Some ''2'')]]"
proof -
  have n1: "\<not> classList_contains (classList (container idle_example)) (cardClass (Some ''1''))"
    by (rule Idle_contains [OF idle_example_Idle]) (simp add: getPhoneNumbers_def)
  have n2: "\<not> classList_contains (classList (container active1_example)) (cardClass (Some ''2''))"
    using Active_contains [OF active1_example_Active, of "''2''"] by (simp add: getPhoneNumbers_def)
  have m: "mounted active1_example"
    by (rule Active_mounted [OF active1_example_Active])
  have "activatePhone (JStr ''1'') idle_example = Inr active1_example"
    by (simp add: activatePhone_def active1_example_def)
  moreover have "''2'' \<in> set getPhoneNumbers"
    by (simp add: getPhoneNumbers_def)
  ultimately show ?thesis
    using activate_other(1,3) [OF m _ n2]
    by (simp add: idle_example_constructed active1_example_Active)
qed

text \<open>
  Claim C2, amended: from \<open>Active(X)\<close>, activating an item \<open>Y \<noteq> X\<close> ends in
  \<open>Active(Y)\<close>; the activation emits a \<open>deactivated\<close> notification and then exactly one
  \<open>activated\<close> notification carrying \<open>Y\<close>; afterwards \<open>getActivePhone()\<close> returns \<open>Y\<close>,
  the pressed and expanded flags of \<open>X\<close> are false and those of \<open>Y\<close> are true.
\<close>

theorem switch_to_other_item:
  assumes "Active X s" and "Y \<in> set getPhoneNumbers" and "Y \<noteq> X"
  shows "\<exists>s'. activatePhone (JStr Y) s = Inr s' \<and> Active Y s' \<and> getActivePhone s' = Some Y \<and>
     emitted s s' =
       [CustomEvent ''phoneDeactivated'' [], CustomEvent ''phoneActivated'' [(''phoneNumber'', Some Y)]] \<and>
     pressed_flag s' X = Some ''false'' \<and> expanded_flag s' X = Some ''false'' \<and>
     pressed_flag s' Y = Some ''true'' \<and> expanded_flag s' Y = Some ''true''"
proof -
  let ?s' = "togglePhone (Some Y) s"
  have m: "mounted s" using assms(1) by (rule Active_mounted)
  have n: "\<not> classList_contains (classList (container s)) (cardClass (Some Y))"
    using Active_contains [OF assms(1,2)] assms(3) by simp
  note step = activate_other [OF m assms(2) n]
  have a: "activeCard ?s' = Some Y" using step(2) by (simp add: Active_def)
  have m': "mounted ?s'" using step(2) by (rule Active_mounted)
  have X: "X \<in> set getPhoneNumbers" using assms(1) by (rule Active_item)
  have "pressed_flag ?s' X = Some ''false''" "expanded_flag ?s' X = Some ''false''"
    "pressed_flag ?s' Y = Some ''true''" "expanded_flag ?s' Y = Some ''true''"
    using assms(3)
    by (simp_all add: flags_of_written [OF m' step(4) X] flags_of_written [OF m' step(4) assms(2)]
          a bool_toString_def)
  with step(1,2,3) a show ?thesis
    by (simp add: getActivePhone_def)
qed

theorem switch_to_other_item_witness:
  "Active ''1'' active1_example \<and> ''2'' \<in> set getPhoneNumbers \<and> ''2'' \<noteq> ''1'' \<and>
   (\<exists>s'. activatePhone (JStr ''2'') active1_example = Inr s' \<and> Active ''2'' s' \<and>
      getActivePhone s' = Some ''2'' \<and>
      emitted active1_example s' =
        [CustomEvent ''phoneDeactivated'' [], CustomEvent ''phoneActivated'' [(''phoneNumber'', Some ''2'')]] \<and>
      pressed_flag s' ''1'' = Some ''false'' \<and> expanded_flag s' ''1'' = Some ''false'' \<and>
      pressed_flag s' ''2'' = Some ''true'' \<and> expanded_flag s' ''2'' = Some ''true'')"
  using switch_to_other_item [of "''1''" active1_example "''2''"] active1_example_Active
  by (simp add: getPhoneNumbers_def)



text \<open>
  Claim C4: after \<open>destroy()\<close> every listener bound by the component is detached, so
  that a later input event changes no state and emits no notification. On the code
  this fails: \<open>bindEvents\<close> registers the function objects made by \<open>.bind(this)\<close>, and
  \<open>destroy\<close> passes the unbound methods to \<open>removeEventListener\<close>, which therefore
  removes nothing. On the example component, after \<open>destroy()\<close> the document still
  holds the outside-click listener and each overlay element its three listeners; a
  click fired on a removed overlay element activates item 1 and emits notifications;
  and after a later activation an outside click still deactivates and notifies.
\<close>

theorem destroy_leaves_listeners_registered:
  "StackedPhones_new (Some page_container) = Inr idle_example \<and>
   destroyed_example = destroy idle_example \<and>
   documentListeners destroyed_example = [(''click'', BoundFn HandleClickOutside 9)] \<and>
   map listeners (elements destroyed_example) =
     [[(''click'', BoundFn HandleInteraction 0), (''touchend'', BoundFn HandleTouchInteraction 1),
       (''keydown'', BoundFn HandleKeyboard 2)],
      [(''click'', BoundFn HandleInteraction 3), (''touchend'', BoundFn HandleTouchInteraction 4),
       (''keydown'', BoundFn HandleKeyboard 5)],
      [(''click'', BoundFn HandleInteraction 6), (''touchend'', BoundFn HandleTouchInteraction 7),
       (''keydown'', BoundFn HandleKeyboard 8)]] \<and>
   getActivePhone destroyed_example = None \<and>
   dispatch_input (click_removed_overlay 0) destroyed_example = togglePhone (Some ''1'') destroyed_example \<and>
   getActivePhone (togglePhone (Some ''1'') destroyed_example) = Some ''1'' \<and>
   emitted destroyed_example (togglePhone (Some ''1'') destroyed_example) =
     [CustomEvent ''phoneDeactivated'' [], CustomEvent ''phoneActivated'' [(''phoneNumber'', Some ''1'')]] \<and>
   activatePhone (JStr ''1'') destroyed_example = Inr (togglePhone (Some ''1'') destroyed_example) \<and>
   dispatch_input click_outside_all (togglePhone (Some ''1'') destroyed_example) =
     deactivateAll (togglePhone (Some ''1'') destroyed_example) \<and>
   emitted (togglePhone (Some ''1'') destroyed_example)
     (deactivateAll (togglePhone (Some ''1'') destroyed_example)) = [CustomEvent ''phoneDeactivated'' []]"
proof -
  let ?d = destroyed_example
  let ?a = "togglePhone (Some ''1'') ?d"
  note m = Idle_mounted [OF idle_example_Idle]
  note d = destroy_mounted [OF m, folded destroyed_example_def]
  have doc: "documentListeners ?d = [(''click'', BoundFn HandleClickOutside 9)]"
    using d(1) by (simp add: wired_def)
  have ls: "map listeners (elements ?d) =
     [[(''click'', BoundFn HandleInteraction 0), (''touchend'', BoundFn HandleTouchInteraction 1),
       (''keydown'', BoundFn HandleKeyboard 2)],
      [(''click'', BoundFn HandleInteraction 3), (''touchend'', BoundFn HandleTouchInteraction 4),
       (''keydown'', BoundFn HandleKeyboard 5)],
      [(''click'', BoundFn HandleInteraction 6), (''touchend'', BoundFn HandleTouchInteraction 7),
       (''keydown'', BoundFn HandleKeyboard 8)]]"
    using d(1) by (simp add: wired_def)
  have n: "\<not> classList_contains (classList (container ?d)) (cardClass (Some ''1''))"
    by (simp add: d(4) idle_example_def init_initial page_container_def classList_contains_def
          cardClass_items)
  note on = togglePhone_on [OF n]
  have click: "dispatch_input (click_removed_overlay 0) ?d = ?a"
    using dispatch_overlay [OF d(1), of "click_removed_overlay 0" 0] wired_first [OF d(1)]
    by (simp add: click_removed_overlay_def)
  have wa: "wired ?a" using d(1) by (simp add: wired_togglePhone)
  have outside: "dispatch_input click_outside_all ?a = deactivateAll ?a"
    using dispatch_other [OF wa, of click_outside_all]
    by (simp add: click_outside_all_def on(1))
  show ?thesis
    by (simp add: idle_example_constructed destroyed_example_def [symmetric] doc ls click outside
          getActivePhone_def d(3) on(1) emitted_append [OF on(3)] activatePhone_def emitted_append)
qed

text \<open>
  Claim C5, as stated: on an instance constructed on a container with no cards every
  public operation, in particular \<open>activatePhone\<close>, is a no-op. No method of the class
  tests whether the setup was aborted: on the instance constructed on the empty example
  container, \<open>activatePhone("1")\<close> puts the marker on the container, makes item 1 the
  selection and dispatches two notifications.
\<close>

theorem inert_instance_activates_counterexample:
  "cards empty_container = 0 \<and>
   StackedPhones_new (Some empty_container) = Inr inert_example \<and>
   activatePhone (JStr ''1'') inert_example = Inr (togglePhone (Some ''1'') inert_example) \<and>
   getActivePhone (togglePhone (Some ''1'') inert_example) = Some ''1'' \<and>
   classList (container (togglePhone (Some ''1'') inert_example)) =
     [''phone-stack-container'', ''phone-1-active''] \<and>
   dispatched (togglePhone (Some ''1'') inert_example) =
     [CustomEvent ''phoneDeactivated'' [], CustomEvent ''phoneActivated'' [(''phoneNumber'', Some ''1'')]]"
proof -
  have cl: "classList (container inert_example) = [''phone-stack-container'']"
    and d: "dispatched inert_example = []"
    by (simp_all add: inert_example_def initial_fields_def empty_container_def)
  have n: "\<not> classList_contains (classList (container inert_example)) (cardClass (Some ''1''))"
    by (simp add: cl classList_contains_def cardClass_items)
  have c: "cards empty_container = 0"
    by (simp add: empty_container_def)
  show ?thesis
    using togglePhone_on [OF n]
    by (simp add: inert_example_constructed activatePhone_def getActivePhone_def cl d c
          classList_remove_def classList_add_def cardClass_items)
qed

text \<open>
  Claim C5, amended: construction on a non-null container with no cards emits exactly
  one diagnostic warning and returns an instance with no overlays and no listeners:
  \<open>getActivePhone()\<close> returns none, the container is untouched, nothing has been
  notified, and no input event has any effect. The public operations are not guarded:
  \<open>activatePhone(X)\<close>, for an item \<open>X\<close> whose marker is not on the container, puts the
  marker on the container, makes \<open>X\<close> the selection and emits a \<open>deactivated\<close> and an
  \<open>activated\<close> notification; the instance still has no overlays and no listeners.
\<close>

theorem construction_without_cards:
  assumes "cards c = 0"
  shows "\<exists>s. StackedPhones_new (Some c) = Inr s \<and>
     console s = [(''warn'', ''StackedPhones: Container or phone cards not found'')] \<and>
     getActivePhone s = None \<and> overlays s = [] \<and> elements s = [] \<and> documentListeners s = [] \<and>
     container s = c \<and> dispatched s = [] \<and>
     (\<forall>e. dispatch_input e s = s) \<and>
     (\<forall>X \<in> set getPhoneNumbers.
        \<not> classList_contains (classList c) (cardClass (Some X)) \<longrightarrow>
        (\<exists>s'. activatePhone (JStr X) s = Inr s' \<and> getActivePhone s' = Some X \<and>
           classList_contains (classList (container s')) (cardClass (Some X)) \<and>
           emitted s s' =
             [CustomEvent ''phoneDeactivated'' [], CustomEvent ''phoneActivated'' [(''phoneNumber'', Some X)]] \<and>
           overlays s' = [] \<and> documentListeners s' = [] \<and> (\<forall>e. dispatch_input e s' = s')))"
proof -
  define s where "s = (initial_fields default_config c)
     \<lparr>console := [(''warn'', ''StackedPhones: Container or phone cards not found'')]\<rparr>"
  have new: "StackedPhones_new (Some c) = Inr s"
    using assms by (simp add: StackedPhones_new_def construct_Some s_def)
  have fields: "console s = [(''warn'', ''StackedPhones: Container or phone cards not found'')]"
    "getActivePhone s = None" "overlays s = []" "elements s = []" "documentListeners s = []"
    "container s = c" "dispatched s = []"
    by (simp_all add: s_def initial_fields_def getActivePhone_def)
  have quiet: "\<forall>e. dispatch_input e s = s"
    using fields(4,5) by (simp add: dispatch_input_unbound)
  have act: "\<exists>s'. activatePhone (JStr X) s = Inr s' \<and> getActivePhone s' = Some X \<and>
           classList_contains (classList (container s')) (cardClass (Some X)) \<and>
           emitted s s' =
             [CustomEvent ''phoneDeactivated'' [], CustomEvent ''phoneActivated'' [(''phoneNumber'', Some X)]] \<and>
           overlays s' = [] \<and> documentListeners s' = [] \<and> (\<forall>e. dispatch_input e s' = s')"
    if "X \<in> set getPhoneNumbers"
      and "\<not> classList_contains (classList c) (cardClass (Some X))" for X
  proof -
    from that(2) have n: "\<not> classList_contains (classList (container s)) (cardClass (Some X))"
      by (simp add: fields(6))
    let ?s' = "togglePhone (Some X) s"
    have "map data_phone (elements ?s') = []" by (simp add: fields(4))
    then have el: "elements ?s' = []" by (simp only: map_is_Nil_conv)
    have "\<forall>e. dispatch_input e ?s' = ?s'"
      using el by (simp add: dispatch_input_unbound fields(5))
    with activate_unmarked [OF n] show ?thesis
      by (simp add: fields(3,5))
  qed
  from new fields quiet act show ?thesis by blast
qed

theorem construction_without_cards_witness:
  "cards empty_container = 0 \<and> ''1'' \<in> set getPhoneNumbers \<and>
   \<not> classList_contains (classList empty_container) (cardClass (Some ''1'')) \<and>
   (\<exists>s. StackedPhones_new (Some empty_container) = Inr s \<and>
      console s = [(''warn'', ''StackedPhones: Container or phone cards not found'')] \<and>
      getActivePhone s = None \<and> overlays s = [] \<and> documentListeners s = [] \<and>
      dispatch_input click_outside_all s = s \<and>
      (\<exists>s'. activatePhone (JStr ''1'') s = Inr s' \<and> getActivePhone s' = Some ''1''))"
proof -
  have c: "cards empty_container = 0"
    and n: "\<not> classList_contains (classList empty_container) (cardClass (Some ''1''))"
    and one: "''1'' \<in> set getPhoneNumbers"
    by (simp_all add: empty_container_def classList_contains_def cardClass_items getPhoneNumbers_def)
  from construction_without_cards [OF c] n one show ?thesis
    by (simp add: c) blast
qed

text \<open>
  Claim C6: construction never lets an exception propagate to the caller, also for a
  missing (null) container. On the code this fails for the null container: the
  constructor calls \<open>container.querySelectorAll\<close> before it tests \<open>!container\<close>, so
  \<open>new StackedPhones(null)\<close> ends in a TypeError, whatever the configuration. The
  theorem evaluates the constructor at that input.
\<close>

theorem constructor_null_container_throws:
  "StackedPhones_new None = Inl TypeError \<and> construct cfg None = Inl TypeError"
  by (simp add: StackedPhones_new_def construct_def)



text \<open>
  Claim C8, as stated: every click whose target is outside the component's root, in
  state \<open>Active(X)\<close> with dismissal enabled, leads to \<open>Idle\<close>, and with dismissal
  disabled an outside click changes nothing. Both halves fail on the code. The handler
  tests \<open>e.target.closest('.phone-stack-container')\<close>, which finds the container of any
  component: a click inside the container of another component of the page is outside
  this component's root and leaves it active, with no notification. And the flag is
  read only while the constructor binds the listeners, with the value \<open>true\<close> of the
  literal: after the assignment \<open>config.enableClickOutside = false\<close> the listener is
  still registered and an outside click still deactivates and notifies.
\<close>

theorem outside_click_in_other_container_counterexample:
  "Active ''1'' active1_example \<and> enableClickOutside (config active1_example) \<and>
   ev_type click_in_other_stack = ''click'' \<and> \<not> target_in_root click_in_other_stack \<and>
   dispatch_input click_in_other_stack active1_example = active1_example \<and>
   getActivePhone (dispatch_input click_in_other_stack active1_example) = Some ''1'' \<and>
   Active ''1'' flag_cleared_example \<and> \<not> enableClickOutside (config flag_cleared_example) \<and>
   ev_type click_outside_all = ''click'' \<and> \<not> target_in_root click_outside_all \<and>
   getActivePhone (dispatch_input click_outside_all flag_cleared_example) = None \<and>
   emitted flag_cleared_example (dispatch_input click_outside_all flag_cleared_example) =
     [CustomEvent ''phoneDeactivated'' []]"
proof -
  have "dispatch_input click_in_other_stack active1_example = active1_example"
    using dispatch_other [OF mounted_wired [OF Active_mounted [OF active1_example_Active]],
        of click_in_other_stack]
    by (simp add: click_in_other_stack_def)
  moreover have "getActivePhone active1_example = Some ''1''"
    using active1_example_Active by (simp add: Active_def getActivePhone_def)
  moreover have "dispatch_input click_outside_all flag_cleared_example =
      deactivateAll flag_cleared_example"
    using dispatch_other [OF mounted_wired [OF Active_mounted [OF flag_cleared_example_Active]],
        of click_outside_all] Active_truthy [OF flag_cleared_example_Active]
    by (simp add: click_outside_all_def)
  ultimately show ?thesis
    by (simp add: active1_example_Active flag_cleared_example_Active flag_examples
          click_in_other_stack_def click_outside_all_def getActivePhone_def emitted_append)
qed

text \<open>
  Claim C8, amended: a click on a node of the page that is not an overlay of the
  component, in state \<open>Active(X)\<close>, whatever the current value of the flag
  \<open>enableClickOutside\<close>: when no element matching \<open>.phone-stack-container\<close> contains
  the target, the component goes to \<open>Idle\<close> and emits one \<open>deactivated\<close> notification;
  when such an element contains the target, there is no state change and no
  notification.
\<close>

theorem outside_click_dismisses:
  assumes "Active X s" and "ev_type e = ''click''" and "ev_target e = OtherNode"
  shows "(\<not> target_closest e \<longrightarrow>
            Idle (dispatch_input e s) \<and> getActivePhone (dispatch_input e s) = None \<and>
            emitted s (dispatch_input e s) = [CustomEvent ''phoneDeactivated'' []]) \<and>
         (target_closest e \<longrightarrow> dispatch_input e s = s)"
proof -
  have m: "mounted s" using assms(1) by (rule Active_mounted)
  have d: "dispatch_input e s = (if \<not> target_closest e then deactivateAll s else s)"
    using dispatch_other [OF mounted_wired [OF m] assms(3)] Active_truthy [OF assms(1)] assms(2)
    by simp
  show ?thesis
    using activate_same(2,3) [OF assms(1)]
    by (auto simp: d getActivePhone_def)
qed

theorem outside_click_dismisses_witness:
  "Active ''1'' active1_example \<and> enableClickOutside (config active1_example) \<and>
   \<not> target_closest click_outside_all \<and>
   Idle (dispatch_input click_outside_all active1_example) \<and>
   emitted active1_example (dispatch_input click_outside_all active1_example) =
     [CustomEvent ''phoneDeactivated'' []] \<and>
   target_closest click_in_other_stack \<and>
   dispatch_input click_in_other_stack active1_example = active1_example \<and>
   Active ''1'' flag_cleared_example \<and> \<not> enableClickOutside (config flag_cleared_example) \<and>
   Idle (dispatch_input click_outside_all flag_cleared_example)"
  using outside_click_dismisses [of "''1''" active1_example click_outside_all]
    outside_click_dismisses [of "''1''" active1_example click_in_other_stack]
    outside_click_dismisses [of "''1''" flag_cleared_example click_outside_all]
    active1_example_Active flag_cleared_example_Active flag_examples
  by (simp add: click_outside_all_def click_in_other_stack_def)

text \<open>
  Claim C9, as stated: after every completed transition the marker and the flags are
  consistent with the selection. Teardown resets the selection and is among the
  transitions of the specification; \<open>destroy()\<close> sets \<open>activeCard\<close> to \<open>null\<close> and
  leaves the class list of the container alone: on the example component in
  \<open>Active(1)\<close>, after \<open>destroy()\<close> there is no selection and the marker of item 1 is
  still on the container.
\<close>

theorem destroy_leaves_marker_counterexample:
  "StackedPhones_new (Some page_container) = Inr idle_example \<and>
   activatePhone (JStr ''1'') idle_example = Inr active1_example \<and>
   Active ''1'' active1_example \<and>
   getActivePhone (destroy active1_example) = None \<and>
   classList_contains (classList (container (destroy active1_example))) (cardClass (Some ''1'')) \<and>
   \<not> markers_agree (destroy active1_example)"
proof -
  note d = destroy_mounted(3,4) [OF Active_mounted [OF active1_example_Active]]
  have one: "''1'' \<in> set getPhoneNumbers" by (simp add: getPhoneNumbers_def)
  have c: "classList_contains (classList (container (destroy active1_example))) (cardClass (Some ''1''))"
    using Active_contains [OF active1_example_Active one] by (simp add: d(2))
  have "\<not> markers_agree (destroy active1_example)"
    using c by (simp add: markers_agree_def getPhoneNumbers_def d(1))
  moreover have "activatePhone (JStr ''1'') idle_example = Inr active1_example"
    by (simp add: activatePhone_def active1_example_def)
  ultimately show ?thesis
    using c by (simp add: idle_example_constructed active1_example_Active getActivePhone_def d(1))
qed

text \<open>
  Claim C9, amended: after every completed transition other than teardown (an
  activation with an item identifier, a call of \<open>cycleToNext\<close>, an input event on an
  overlay or elsewhere on the page), on a component constructed on a container with
  cards and no marker, the marker and the flags are consistent with the selection: the
  marker of an item is on the container exactly when that item is the selection, and
  the pressed and expanded flags are true exactly on the overlay of the selected item;
  once a notification has been emitted, every flag is written as \<open>"true"\<close> or
  \<open>"false"\<close>, so all are \<open>"false"\<close> in \<open>Idle\<close>.
\<close>

theorem marker_and_flags_consistent_after_transitions:
  assumes "0 < cards c"
    and "list_all (\<lambda>X. \<not> classList_contains (classList c) (cardClass (Some X))) getPhoneNumbers"
    and "list_all valid_action as"
  shows "\<exists>s. andThen (StackedPhones_new (Some c)) (run_actions as) = Inr s \<and>
     markers_agree s \<and> flags_agree s \<and> (dispatched s = [] \<or> flags_written s)"
proof -
  have "StackedPhones_new (Some c) = Inr (init (initial_fields default_config c))"
    using assms(1) by (simp add: StackedPhones_new_def construct_Some)
  moreover from settled_run_actions [OF settled_init [OF assms(2)] assms(3)]
  obtain s where "run_actions as (init (initial_fields default_config c)) = Inr s" "settled s"
    by blast
  ultimately show ?thesis
    by (auto simp: andThen_def settled_def consistent_def)
qed

theorem marker_and_flags_consistent_witness:
  "0 < cards page_container \<and>
   list_all valid_action
     [Input (click_overlay 1), Cycle, Activation (ActivatePhone (JNum 3)), Input click_outside_all] \<and>
   (\<exists>s. andThen (StackedPhones_new (Some page_container))
           (run_actions [Input (click_overlay 1), Cycle, Activation (ActivatePhone (JNum 3)),
              Input click_outside_all]) = Inr s \<and>
        markers_agree s \<and> flags_agree s \<and> (dispatched s = [] \<or> flags_written s))"
  using marker_and_flags_consistent_after_transitions
    [of page_container
      "[Input (click_overlay 1), Cycle, Activation (ActivatePhone (JNum 3)), Input click_outside_all]"]
  by (simp add: page_container_def getPhoneNumbers_def classList_contains_def cardClass_items
        click_overlay_def click_outside_all_def number_toString_def decimal_small)

text \<open>
  Claim C10: in every state and for every argument \<open>x\<close>, \<open>isPhoneActive(x)\<close> returns
  true exactly when \<open>getActivePhone()\<close> returns the string form \<open>x.toString()\<close> of the
  argument; the number and the string form of an identifier give the same answer.
\<close>

theorem isPhoneActive_iff_getActivePhone:
  "(isPhoneActive x s = Inr True) = (\<exists>str. toString x = Inr str \<and> getActivePhone s = Some str) \<and>
   isPhoneActive (JNum 1) s = isPhoneActive (JStr ''1'') s \<and>
   isPhoneActive (JNum 2) s = isPhoneActive (JStr ''2'') s \<and>
   isPhoneActive (JNum 3) s = isPhoneActive (JStr ''3'') s"
proof -
  have "(isPhoneActive x s = Inr True) = (\<exists>str. toString x = Inr str \<and> getActivePhone s = Some str)"
    by (cases "toString x") (auto simp: isPhoneActive_def getActivePhone_def)
  moreover have "number_toString 1 = ''1''" "number_toString 2 = ''2''" "number_toString 3 = ''3''"
    by (simp_all add: number_toString_def decimal_small)
  ultimately show ?thesis
    by (simp add: isPhoneActive_def)
qed

end
